theory Spec2Isabelle
  imports Complex_Main "HOL-Library.AList"
begin

section \<open>Text: Python strings, \<open>str.strip\<close>, \<open>str.lower\<close>, \<open>in\<close>\<close>

text \<open>
  The engine of \<^verbatim>\<open>area_extractor.py\<close> works on the text lines of a page. A Python
  string is modelled by a \<^typ>\<open>string\<close> whose characters are the code points below 256
  (Latin-1): \<open>CHR 0xB2\<close> is the superscript two of the unit, \<open>CHR 0xE4\<close> the a-umlaut
  of the keyword table. On that range \<^verbatim>\<open>\d\<close> is \<open>0-9\<close>, and \<^verbatim>\<open>\s\<close> and
  \<^verbatim>\<open>str.strip\<close> agree on the twelve white-space characters listed below.
\<close>

definition digit_chars :: string where
  "digit_chars = ''0123456789''"

definition upper_chars :: string where
  "upper_chars = ''ABCDEFGHIJKLMNOPQRSTUVWXYZ''"

definition lower_chars :: string where
  "lower_chars = ''abcdefghijklmnopqrstuvwxyz''"

definition space_chars :: string where
  "space_chars = [CHR 0x09, CHR 0x0A, CHR 0x0B, CHR 0x0C, CHR 0x0D, CHR 0x1C, CHR 0x1D,
                  CHR 0x1E, CHR 0x1F, CHR 0x20, CHR 0x85, CHR 0xA0]"

definition is_space :: "char \<Rightarrow> bool" where
  "is_space c = (c \<in> set space_chars)"

text \<open>\<^verbatim>\<open>str.lower\<close> and \<^verbatim>\<open>str.upper\<close> on one character: the ASCII letters, and the
  Latin-1 letters \<open>0xC0-0xDE\<close> (without the multiplication sign \<open>0xD7\<close>) against
  \<open>0xE0-0xFE\<close> (without the division sign \<open>0xF7\<close>).\<close>

definition to_lower :: "char \<Rightarrow> char" where
  "to_lower c = (let n = (of_char c :: nat) in
     if (65 \<le> n \<and> n \<le> 90) \<or> (192 \<le> n \<and> n \<le> 222 \<and> n \<noteq> 215) then char_of (n + 32) else c)"

definition to_upper :: "char \<Rightarrow> char" where
  "to_upper c = (let n = (of_char c :: nat) in
     if (97 \<le> n \<and> n \<le> 122) \<or> (224 \<le> n \<and> n \<le> 254 \<and> n \<noteq> 247) then char_of (n - 32) else c)"

definition lower_str :: "string \<Rightarrow> string" where
  "lower_str s = map to_lower s"

definition strip :: "string \<Rightarrow> string" where
  "strip s = rev (dropWhile is_space (rev (dropWhile is_space s)))"

text \<open>\<^verbatim>\<open>needle in haystack\<close> on strings.\<close>

fun starts_with :: "string \<Rightarrow> string \<Rightarrow> bool" where
  "starts_with [] s = True"
| "starts_with (p # ps) [] = False"
| "starts_with (p # ps) (c # cs) = (p = c \<and> starts_with ps cs)"

fun contains :: "string \<Rightarrow> string \<Rightarrow> bool" where
  "contains needle [] = starts_with needle []"
| "contains needle (c # cs) = (starts_with needle (c # cs) \<or> contains needle cs)"

text \<open>\<^verbatim>\<open>s.replace(a, b)\<close> for one-character \<open>a\<close>; \<open>b\<close> is a string (empty for a removal).\<close>

definition replace_char :: "char \<Rightarrow> string \<Rightarrow> string \<Rightarrow> string" where
  "replace_char a b s = concat (map (\<lambda>c. if c = a then b else [c]) s)"

text \<open>\<^verbatim>\<open>text.split('\n')\<close>: the pieces between line feeds; the empty text gives one empty line.\<close>

fun split_lines :: "string \<Rightarrow> string list" where
  "split_lines [] = [[]]"
| "split_lines (c # cs) =
     (if c = CHR 0x0A then [] # split_lines cs
      else (case split_lines cs of [] \<Rightarrow> [[c]] | l # ls \<Rightarrow> (c # l) # ls))"

section \<open>Regular expressions: the fragment of \<open>re\<close> the patterns use\<close>

text \<open>
  A pattern is a term of \<open>re\<close>. \<open>Grp\<close> is the capturing group 1 (no pattern has a second
  one), \<open>Bol\<close> is \<^verbatim>\<open>^\<close>, \<open>Eol\<close> is \<^verbatim>\<open>$\<close>, \<open>Wb\<close> is \<^verbatim>\<open>\b\<close>. The matcher
  returns every way the pattern can match from a position, in the order in which the
  backtracking engine of \<open>re\<close> tries them: the left alternative first, the longer
  repetition first. The head of that list is the match \<open>re\<close> reports.
\<close>

datatype re =
    Chr char
  | Cls string
  | Seq re re
  | Alt re re
  | Star re
  | Plus re
  | Opt re
  | Grp re
  | Bol
  | Eol
  | Wb

text \<open>A position in the subject: the character before it (none at the start), the text
  still to read, and what group 1 holds.\<close>

datatype mstate = MState (before: "char option") (ahead: string) (grp1: "string option")

definition is_word :: "char \<Rightarrow> bool" where
  "is_word c = (let n = (of_char c :: nat) in
     c \<in> set digit_chars \<or> c \<in> set upper_chars \<or> c \<in> set lower_chars \<or> c = CHR ''_'' \<or>
     n \<in> {0xAA, 0xB2, 0xB3, 0xB5, 0xB9, 0xBA, 0xBC, 0xBD, 0xBE} \<or>
     (0xC0 \<le> n \<and> n \<noteq> 0xD7 \<and> n \<noteq> 0xF7))"

definition chr_eq :: "bool \<Rightarrow> char \<Rightarrow> char \<Rightarrow> bool" where
  "chr_eq ic p c = (if ic then to_lower p = to_lower c else p = c)"

definition cls_mem :: "bool \<Rightarrow> string \<Rightarrow> char \<Rightarrow> bool" where
  "cls_mem ic cs c =
     (if ic then c \<in> set cs \<or> to_lower c \<in> set cs \<or> to_upper c \<in> set cs else c \<in> set cs)"

definition step_char :: "(char \<Rightarrow> bool) \<Rightarrow> mstate \<Rightarrow> mstate list" where
  "step_char ok st =
     (case ahead st of [] \<Rightarrow> []
      | c # cs \<Rightarrow> if ok c then [MState (Some c) cs (grp1 st)] else [])"

definition at_boundary :: "mstate \<Rightarrow> bool" where
  "at_boundary st =
     ((case before st of None \<Rightarrow> False | Some c \<Rightarrow> is_word c) \<noteq>
      (case ahead st of [] \<Rightarrow> False | c # cs \<Rightarrow> is_word c))"

text \<open>Greedy repetition of a body \<open>f\<close>: one more round first (a round that reads nothing
  is not repeated), then stopping here. At most \<open>n\<close> rounds are needed when \<open>n\<close>
  characters are left, since each round reads one.\<close>

fun star_run :: "(mstate \<Rightarrow> mstate list) \<Rightarrow> nat \<Rightarrow> mstate \<Rightarrow> mstate list" where
  "star_run f 0 st = [st]"
| "star_run f (Suc n) st =
     concat (map (star_run f n)
               (filter (\<lambda>st'. length (ahead st') < length (ahead st)) (f st))) @ [st]"

definition set_group :: "mstate \<Rightarrow> mstate \<Rightarrow> mstate" where
  "set_group st st' =
     MState (before st') (ahead st') (Some (take (length (ahead st) - length (ahead st')) (ahead st)))"

primrec re_run :: "bool \<Rightarrow> re \<Rightarrow> mstate \<Rightarrow> mstate list" where
  "re_run ic (Chr p) = step_char (chr_eq ic p)"
| "re_run ic (Cls cs) = step_char (cls_mem ic cs)"
| "re_run ic (Seq a b) = (\<lambda>st. concat (map (re_run ic b) (re_run ic a st)))"
| "re_run ic (Alt a b) = (\<lambda>st. re_run ic a st @ re_run ic b st)"
| "re_run ic (Star a) = (\<lambda>st. star_run (re_run ic a) (length (ahead st)) st)"
| "re_run ic (Plus a) =
     (\<lambda>st. concat (map (\<lambda>st'. star_run (re_run ic a) (length (ahead st')) st') (re_run ic a st)))"
| "re_run ic (Opt a) = (\<lambda>st. re_run ic a st @ [st])"
| "re_run ic (Grp a) = (\<lambda>st. map (set_group st) (re_run ic a st))"
| "re_run ic Bol = (\<lambda>st. if before st = None then [st] else [])"
| "re_run ic Eol = (\<lambda>st. if ahead st = [] \<or> ahead st = [CHR 0x0A] then [st] else [])"
| "re_run ic Wb = (\<lambda>st. if at_boundary st then [st] else [])"

text \<open>\<^verbatim>\<open>re.match(p, s)\<close> (the flag is \<^verbatim>\<open>re.IGNORECASE\<close>) and \<^verbatim>\<open>m.group(1)\<close>.\<close>

definition re_match :: "bool \<Rightarrow> re \<Rightarrow> string \<Rightarrow> mstate option" where
  "re_match ic p s = (case re_run ic p (MState None s None) of [] \<Rightarrow> None | m # ms \<Rightarrow> Some m)"

definition group1 :: "mstate \<Rightarrow> string" where
  "group1 m = (case grp1 m of None \<Rightarrow> [] | Some g \<Rightarrow> g)"

text \<open>\<^verbatim>\<open>re.search\<close>: the first position, from the left, where the pattern matches.\<close>

fun search_from :: "bool \<Rightarrow> re \<Rightarrow> char option \<Rightarrow> string \<Rightarrow> mstate option" where
  "search_from ic p pv [] =
     (case re_run ic p (MState pv [] None) of [] \<Rightarrow> None | m # ms \<Rightarrow> Some m)"
| "search_from ic p pv (c # cs) =
     (case re_run ic p (MState pv (c # cs) None) of
        [] \<Rightarrow> search_from ic p (Some c) cs
      | m # ms \<Rightarrow> Some m)"

definition re_search :: "bool \<Rightarrow> re \<Rightarrow> string \<Rightarrow> mstate option" where
  "re_search ic p s = search_from ic p None s"

text \<open>Writing patterns: a literal word, a sequence, a choice.\<close>

fun lit :: "string \<Rightarrow> re" where
  "lit [] = Opt (Cls [])"
| "lit [c] = Chr c"
| "lit (c # cs) = Seq (Chr c) (lit cs)"

fun seqs :: "re list \<Rightarrow> re" where
  "seqs [] = Opt (Cls [])"
| "seqs [r] = r"
| "seqs (r # rs) = Seq r (seqs rs)"

fun alts :: "re list \<Rightarrow> re" where
  "alts [] = Cls []"
| "alts [r] = r"
| "alts (r # rs) = Alt r (alts rs)"

definition digit :: re where
  "digit = Cls digit_chars"

definition ws :: re where
  "ws = Star (Cls space_chars)"

text \<open>The tail \<^verbatim>\<open>\s*m[\xb22]?\<close> that closes every area pattern.\<close>

definition unit_m2 :: re where
  "unit_m2 = seqs [ws, Chr CHR ''m'', Opt (Cls [CHR 0xB2, CHR ''2''])]"

section \<open>Numbers\<close>

text \<open>
  A Python \<open>float\<close> is modelled by the rational number its decimal text denotes; binary
  rounding, overflow and underflow are outside the model. \<open>py_float\<close> is \<^verbatim>\<open>float(s)\<close> on
  the strings this program hands it: every caller passes a capture of \<^verbatim>\<open>[\d,]+\<close> or
  \<^verbatim>\<open>[\d.,]+\<close> with the separators rewritten, that is digits and periods. Such a string
  is a number when it has at most one period and at least one digit; anything else
  raises \<open>ValueError\<close>.
\<close>

datatype error = ValueError

fun digit_val :: "char \<Rightarrow> nat" where
  "digit_val c = of_char c - 48"

fun nat_of_digits :: "string \<Rightarrow> nat" where
  "nat_of_digits s = foldl (\<lambda>n c. 10 * n + digit_val c) 0 s"

definition is_numeric :: "string \<Rightarrow> bool" where
  "is_numeric s =
     (let ip = takeWhile (\<lambda>c. c \<noteq> CHR ''.'') s;
          fp = drop (Suc (length ip)) s
      in list_all (\<lambda>c. c \<in> set digit_chars) ip \<and> list_all (\<lambda>c. c \<in> set digit_chars) fp \<and>
         (ip \<noteq> [] \<or> fp \<noteq> []))"

definition decimal_value :: "string \<Rightarrow> rat" where
  "decimal_value s =
     (let ip = takeWhile (\<lambda>c. c \<noteq> CHR ''.'') s;
          fp = drop (Suc (length ip)) s
      in of_nat (nat_of_digits ip) + of_nat (nat_of_digits fp) / 10 ^ length fp)"

definition py_float :: "string \<Rightarrow> error + rat" where
  "py_float s = (if is_numeric s then Inr (decimal_value s) else Inl ValueError)"

text \<open>\<^verbatim>\<open>parse_german_number\<close>, lines 242-254.\<close>

definition parse_german_number :: "string \<Rightarrow> error + rat" where
  "parse_german_number s0 =
     (let s = strip s0 in
      if CHR ''.'' \<in> set s \<and> CHR '','' \<in> set s
      then py_float (replace_char CHR '','' ''.'' (replace_char CHR ''.'' [] s))
      else py_float (replace_char CHR '','' ''.'' s))"

text \<open>The rule of the number parser as the specification words it, in three cases.\<close>

definition spec_rewrite :: "string \<Rightarrow> string" where
  "spec_rewrite s =
     (if CHR ''.'' \<in> set s \<and> CHR '','' \<in> set s
      then map (\<lambda>c. if c = CHR '','' then CHR ''.'' else c) (filter (\<lambda>c. c \<noteq> CHR ''.'') s)
      else if CHR '','' \<in> set s
      then map (\<lambda>c. if c = CHR '','' then CHR ''.'' else c) s
      else s)"

definition spec_parse_number :: "string \<Rightarrow> error + rat" where
  "spec_parse_number s0 =
     (let r = spec_rewrite (strip s0)
      in if is_numeric r then Inr (decimal_value r) else Inl ValueError)"

text \<open>\<^verbatim>\<open>round(x, 2)\<close> on the exact value: to the nearest hundredth, a tie to the even one.\<close>

definition py_round2 :: "rat \<Rightarrow> rat" where
  "py_round2 x =
     (let y = x * 100; f = \<lfloor>y\<rfloor>; d = y - of_int f
      in of_int (if d < 1 / 2 then f else if 1 / 2 < d then f + 1
                 else if even f then f else f + 1) / 100)"

text \<open>\<^verbatim>\<open>str(n)\<close> of a natural number and the text an f-string gives a float: the integer
  part, a period, and the decimals without trailing zeros (at least one, at most 17).
  This is what \<open>repr\<close> prints for the non-negative values of up to 15 significant digits
  below \<open>10^16\<close> that area tokens denote.\<close>

definition digit_char :: "nat \<Rightarrow> char" where
  "digit_char d = char_of (48 + d)"

fun str_nat :: "nat \<Rightarrow> string" where
  "str_nat n = (if n < 10 then [digit_char n] else str_nat (n div 10) @ [digit_char (n mod 10)])"

fun frac_digits :: "nat \<Rightarrow> rat \<Rightarrow> string" where
  "frac_digits 0 f = []"
| "frac_digits (Suc k) f =
     (if f = 0 then []
      else digit_char (nat \<lfloor>f * 10\<rfloor>) # frac_digits k (f * 10 - of_int \<lfloor>f * 10\<rfloor>))"

definition float_str :: "rat \<Rightarrow> string" where
  "float_str x =
     (let ip = nat \<lfloor>x\<rfloor>; f = x - of_nat ip
      in str_nat ip @ ''.'' @ (if f = 0 then ''0'' else frac_digits 17 f))"

text \<open>Raising is a result: \<open>Inl\<close> carries the exception, and \<open>bind_res\<close> runs the rest of
  a block only when nothing was raised.\<close>

definition bind_res :: "error + 'a \<Rightarrow> ('a \<Rightarrow> error + 'b) \<Rightarrow> error + 'b" where
  "bind_res r f = (case r of Inl e \<Rightarrow> Inl e | Inr v \<Rightarrow> f v)"

text \<open>The truth value Python gives an optional float: \<open>None\<close> and \<open>0.0\<close> are false.\<close>

definition truthy :: "rat option \<Rightarrow> bool" where
  "truthy x = (case x of None \<Rightarrow> False | Some v \<Rightarrow> v \<noteq> 0)"

section \<open>Data model\<close>

datatype blueprint_style = Haardtring | Leiq | Omniturm | Unknown

definition style_value :: "blueprint_style \<Rightarrow> string" where
  "style_value s = (case s of Haardtring \<Rightarrow> ''haardtring'' | Leiq \<Rightarrow> ''leiq''
                    | Omniturm \<Rightarrow> ''omniturm'' | Unknown \<Rightarrow> ''unknown'')"

datatype room_category =
  Office | Residential | Circulation | Stairs | Elevators | Shafts | Technical |
  Sanitary | Storage | Outdoor | Other

definition category_value :: "room_category \<Rightarrow> string" where
  "category_value c = (case c of Office \<Rightarrow> ''office'' | Residential \<Rightarrow> ''residential''
     | Circulation \<Rightarrow> ''circulation'' | Stairs \<Rightarrow> ''stairs'' | Elevators \<Rightarrow> ''elevators''
     | Shafts \<Rightarrow> ''shafts'' | Technical \<Rightarrow> ''technical'' | Sanitary \<Rightarrow> ''sanitary''
     | Storage \<Rightarrow> ''storage'' | Outdoor \<Rightarrow> ''outdoor'' | Other \<Rightarrow> ''other'')"

text \<open>\<^verbatim>\<open>ROOM_CATEGORIES\<close>, in the order of the dictionary literal.\<close>

definition ROOM_CATEGORIES :: "(room_category \<times> string list) list" where
  "ROOM_CATEGORIES =
    [(Office, [''b'' @ [CHR 0xFC] @ ''ro'', ''office'', ''nutzungseinheit'', ''back office'']),
     (Residential, [''schlafen'', ''wohnen'', ''essen'', ''kochen'', ''zimmer'',
                    ''k'' @ [CHR 0xFC] @ ''che'']),
     (Circulation, [''flur'', ''diele'', ''schleuse'', ''vorraum'', ''eingang'', ''lobby'']),
     (Stairs, [''treppe'', ''treppenhaus'', ''trh'']),
     (Elevators, [''aufzug'', ''lift'', ''aufzugsschacht'', ''aufzugsvorr'']),
     (Shafts, [''schacht'', ''l'' @ [CHR 0xFC] @ ''ftung'', ''medien'',
               ''druckbel'' @ [CHR 0xFC] @ ''ftung'']),
     (Technical, [''elektro'', ''technik'', ''hwr'', ''it verteiler'', ''elt'', ''glt'', ''fiz'']),
     (Sanitary, [''wc'', ''bad'', ''dusche'', ''g'' @ [CHR 0xE4] @ ''stebad'', ''umkleide'',
                 ''sanit'' @ [CHR 0xE4] @ ''r'']),
     (Storage, [''lager'', ''abstellraum'', ''m'' @ [CHR 0xFC] @ ''ll'', ''fahrrad'']),
     (Outdoor, [''balkon'', ''terrasse'', ''loggia'', ''dachterrasse'', ''freisitz''])]"

text \<open>\<^verbatim>\<open>ExtractedRoom\<close>. The field \<open>bbox\<close> is left out: no extractor sets it.\<close>

record extracted_room =
  room_number :: string
  room_name :: string
  area_m2 :: rat
  counted_m2 :: rat
  factor :: rat
  page :: nat
  source_text :: string
  category :: room_category
  perimeter_m :: "rat option"
  height_m :: "rat option"
  factor_source :: "string option"
  extraction_pattern :: string

section \<open>Room categories\<close>

fun categorize_in :: "(room_category \<times> string list) list \<Rightarrow> string \<Rightarrow> room_category" where
  "categorize_in [] name_lower = Other"
| "categorize_in ((c, keywords) # tbl) name_lower =
     (if list_ex (\<lambda>keyword. contains keyword name_lower) keywords then c
      else categorize_in tbl name_lower)"

definition categorize_room :: "string \<Rightarrow> room_category" where
  "categorize_room name = categorize_in ROOM_CATEGORIES (lower_str name)"

definition is_outdoor_room :: "string \<Rightarrow> bool" where
  "is_outdoor_room name = (categorize_room name = Outdoor)"

text \<open>\<^verbatim>\<open>room_name or "Unknown"\<close> and \<^verbatim>\<open>room_name or ""\<close> for an optional name.\<close>

definition name_or :: "string option \<Rightarrow> string \<Rightarrow> string" where
  "name_or n d = (case n of None \<Rightarrow> d | Some s \<Rightarrow> if s = [] then d else s)"

section \<open>Scanning a page\<close>

text \<open>\<^verbatim>\<open>lines[j].strip()\<close>; every use is guarded by \<open>j < len(lines)\<close>.\<close>

definition line_at :: "string list \<Rightarrow> nat \<Rightarrow> string" where
  "line_at lines j = strip (lines ! j)"

text \<open>\<^verbatim>\<open>for pattern in patterns: m = pattern.match(line); if m: break\<close>; each pattern
  comes with its \<^verbatim>\<open>re.IGNORECASE\<close> flag.\<close>

fun first_match :: "(bool \<times> re) list \<Rightarrow> string \<Rightarrow> mstate option" where
  "first_match [] line = None"
| "first_match ((ic, p) # ps) line =
     (case re_match ic p line of None \<Rightarrow> first_match ps line | Some m \<Rightarrow> Some m)"

text \<open>The outer loop \<^verbatim>\<open>while i < len(lines)\<close> of the style extractors appends the rooms
  of each line in turn; an exception at one line ends the call.\<close>

fun collect :: "(nat \<Rightarrow> error + 'a list) \<Rightarrow> nat list \<Rightarrow> error + 'a list" where
  "collect f [] = Inr []"
| "collect f (i # is) =
     bind_res (f i) (\<lambda>xs. bind_res (collect f is) (\<lambda>ys. Inr (xs @ ys)))"

text \<open>The lookahead window \<^verbatim>\<open>range(i + 1, min(len(lines), i + 15))\<close>.\<close>

definition window :: "string list \<Rightarrow> nat \<Rightarrow> nat list" where
  "window lines i = [i + 1 ..< min (length lines) (i + 15)]"

section \<open>\<open>extract_haardtring\<close>, lines 330-423\<close>

definition hr_room_patterns :: "(bool \<times> re) list" where
  "hr_room_patterns =
    [(False, seqs [Bol, Grp (seqs [Chr CHR ''R'', Plus digit, Chr CHR ''.'', Chr CHR ''E'',
                     Plus digit, Chr CHR ''.'', Plus digit, Chr CHR ''.'', Plus digit])]),
     (False, seqs [Bol, Grp (seqs [Chr CHR ''R'', Plus digit, Cls upper_chars])]),
     (False, seqs [Bol, Grp (seqs [Chr CHR ''E'', Chr CHR ''.'', Plus (Cls (upper_chars @ digit_chars)),
                     Plus (Seq (Chr CHR ''.'') (Plus digit))])])]"

text \<open>\<^verbatim>\<open>^(F:|BA:|B:|W:|D:|[\d,]+)\<close>: a line that cannot be a room name.\<close>

definition hr_not_name :: re where
  "hr_not_name = seqs [Bol, Grp (alts [lit ''F:'', lit ''BA:'', lit ''B:'', lit ''W:'', lit ''D:'',
                         Plus (Cls (digit_chars @ '',''))])]"

text \<open>\<^verbatim>\<open>^F:\s*([\d,]+)\s*m[\xb22]?\<close> (ignoring case), \<^verbatim>\<open>^50%:\s*([\d,]+)\s*m[\xb22]?\<close> and
  \<^verbatim>\<open>^([\d,]+)\s*m[\xb22]?\<close>.\<close>

definition hr_area_inline :: re where
  "hr_area_inline = seqs [Bol, lit ''F:'', ws, Grp (Plus (Cls (digit_chars @ '',''))), unit_m2]"

definition hr_balcony :: re where
  "hr_balcony = seqs [Bol, lit ''50%:'', ws, Grp (Plus (Cls (digit_chars @ '',''))), unit_m2]"

definition hr_area_value :: re where
  "hr_area_value = seqs [Bol, Grp (Plus (Cls (digit_chars @ '',''))), unit_m2]"

text \<open>The three tests of lines 390-392 that end the lookahead; the second one carries
  a \<^verbatim>\<open>$\<close> that the room pattern does not have.\<close>

definition hr_next_room :: "string \<Rightarrow> bool" where
  "hr_next_room cur =
     (re_match False (seqs [Bol, Chr CHR ''R'', Plus digit, Chr CHR ''.'', Chr CHR ''E'', Plus digit,
                            Chr CHR ''.'', Plus digit, Chr CHR ''.'', Plus digit]) cur \<noteq> None \<or>
      re_match False (seqs [Bol, Chr CHR ''R'', Plus digit, Cls upper_chars, Eol]) cur \<noteq> None \<or>
      re_match False (seqs [Bol, Chr CHR ''E'', Chr CHR ''.'', Plus (Cls (upper_chars @ digit_chars)),
                            Plus (Seq (Chr CHR ''.'') (Plus digit))]) cur \<noteq> None)"

text \<open>Lines 362-365: the line after the anchor is the room name unless it is empty or
  looks like a label or a number.\<close>

definition hr_room_name :: "string list \<Rightarrow> nat \<Rightarrow> string option" where
  "hr_room_name lines i =
     (if i + 1 < length lines
      then (let next_line = line_at lines (i + 1)
            in if next_line \<noteq> [] \<and> re_match False hr_not_name next_line = None
               then Some next_line else None)
      else None)"

text \<open>The \<^verbatim>\<open>50%:\<close> token looked for on line \<open>k\<close> once the area is known (lines 373-376
  and 383-386).\<close>

definition hr_balcony_at :: "string list \<Rightarrow> nat \<Rightarrow> error + rat option" where
  "hr_balcony_at lines k =
     (if k < length lines
      then (case re_match False hr_balcony (line_at lines k) of
              None \<Rightarrow> Inr None
            | Some b \<Rightarrow> bind_res (parse_german_number (group1 b)) (\<lambda>v. Inr (Some v)))
      else Inr None)"

text \<open>The loop over \<open>j\<close> of lines 367-393; the result is \<open>(area, balcony_area)\<close>.\<close>

fun hr_lookahead :: "string list \<Rightarrow> nat list \<Rightarrow> error + (rat option \<times> rat option)" where
  "hr_lookahead lines [] = Inr (None, None)"
| "hr_lookahead lines (j # js) =
     (let cur = line_at lines j in
      case re_match True hr_area_inline cur of
        Some f \<Rightarrow>
          bind_res (parse_german_number (group1 f)) (\<lambda>area.
          bind_res (hr_balcony_at lines (j + 1)) (\<lambda>balcony. Inr (Some area, balcony)))
      | None \<Rightarrow>
         (case (if cur = ''F:'' \<and> j + 1 < length lines
                then re_match False hr_area_value (line_at lines (j + 1)) else None) of
            Some m \<Rightarrow>
              bind_res (parse_german_number (group1 m)) (\<lambda>area.
              bind_res (hr_balcony_at lines (j + 2)) (\<lambda>balcony. Inr (Some area, balcony)))
          | None \<Rightarrow>
              if hr_next_room cur then Inr (None, None) else hr_lookahead lines js))"

text \<open>Lines 395-420: the record of an anchor whose area is known.\<close>

definition hr_room ::
  "string \<Rightarrow> string option \<Rightarrow> nat \<Rightarrow> rat \<Rightarrow> rat option \<Rightarrow> extracted_room" where
  "hr_room room_num name page_idx area balcony =
     (let (fac, counted, fsrc) =
            (if truthy balcony then (1 / 2, the balcony, Some ''explicit_50%'')
             else if name \<noteq> None \<and> name \<noteq> Some [] \<and> is_outdoor_room (the name)
             then (1 / 2, py_round2 (area * (1 / 2)), Some ''default_outdoor'')
             else (1, area, None))
      in \<lparr> room_number = room_num, room_name = name_or name ''Unknown'', area_m2 = area,
           counted_m2 = counted, factor = fac, page = page_idx,
           source_text = ''F: '' @ float_str area,
           category = categorize_room (name_or name []),
           perimeter_m = None, height_m = None, factor_source = fsrc,
           extraction_pattern = ''F:'' \<rparr>)"

definition haardtring_at :: "string list \<Rightarrow> nat \<Rightarrow> nat \<Rightarrow> error + extracted_room list" where
  "haardtring_at lines page_idx i =
     (case first_match hr_room_patterns (line_at lines i) of
        None \<Rightarrow> Inr []
      | Some room_match \<Rightarrow>
          bind_res (hr_lookahead lines (window lines i)) (\<lambda>(area, balcony).
            if truthy area
            then Inr [hr_room (group1 room_match) (hr_room_name lines i) page_idx (the area) balcony]
            else Inr []))"

definition extract_haardtring :: "string list \<Rightarrow> nat \<Rightarrow> error + extracted_room list" where
  "extract_haardtring lines page_idx = collect (haardtring_at lines page_idx) [0 ..< length lines]"

section \<open>\<open>extract_leiq\<close>, lines 426-516\<close>

text \<open>\<^verbatim>\<open>^(B\.\d+\.[0-9A-Z]+\.[A-Z]?\d+(?:-[A-Z])?)\<close>.\<close>

definition lq_room_pattern :: re where
  "lq_room_pattern =
     seqs [Bol, Grp (seqs [Chr CHR ''B'', Chr CHR ''.'', Plus digit, Chr CHR ''.'',
             Plus (Cls (digit_chars @ upper_chars)), Chr CHR ''.'', Opt (Cls upper_chars), Plus digit,
             Opt (Seq (Chr CHR ''-'') (Cls upper_chars))])]"

text \<open>\<^verbatim>\<open>^(NRF|F[=:]|U[=:]|LH[=:]|LRH[=:]|B\.|[\d,]+)\<close>, ignoring case.\<close>

definition lq_not_name :: re where
  "lq_not_name =
     seqs [Bol, Grp (alts [lit ''NRF'', Seq (Chr CHR ''F'') (Cls ''=:''), Seq (Chr CHR ''U'') (Cls ''=:''),
             Seq (lit ''LH'') (Cls ''=:''), Seq (lit ''LRH'') (Cls ''=:''), lit ''B.'',
             Plus (Cls (digit_chars @ '',''))])]"

definition number_token :: re where
  "number_token = Grp (Plus (Cls (digit_chars @ ''.,'')))"

text \<open>\<^verbatim>\<open>^NRF[=:]\s*([\d.,]+)\s*m[\xb22]?\<close>, \<^verbatim>\<open>^F[=:]\s*([\d.,]+)\s*m[\xb22]?\<close>,
  \<^verbatim>\<open>^([\d.,]+)\s*m[\xb22]?\<close>, \<^verbatim>\<open>^U[=:]\s*([\d.,]+)\s*m\b\<close> and
  \<^verbatim>\<open>^L(?:R)?H[=:]\s*([\d.,]+)\s*m\b\<close>; all but the third ignore case.\<close>

definition lq_nrf :: re where
  "lq_nrf = seqs [Bol, lit ''NRF'', Cls ''=:'', ws, number_token, unit_m2]"

definition lq_f :: re where
  "lq_f = seqs [Bol, Chr CHR ''F'', Cls ''=:'', ws, number_token, unit_m2]"

definition area_value :: re where
  "area_value = seqs [Bol, number_token, unit_m2]"

definition lq_perimeter :: re where
  "lq_perimeter = seqs [Bol, Chr CHR ''U'', Cls ''=:'', ws, number_token, ws, Chr CHR ''m'', Wb]"

definition lq_height :: re where
  "lq_height = seqs [Bol, Chr CHR ''L'', Opt (Chr CHR ''R''), Chr CHR ''H'', Cls ''=:'', ws, number_token,
                     ws, Chr CHR ''m'', Wb]"

definition lq_room_name :: "string list \<Rightarrow> nat \<Rightarrow> string option" where
  "lq_room_name lines i =
     (if i + 1 < length lines
      then (let next_line = line_at lines (i + 1)
            in if next_line \<noteq> [] \<and> re_match True lq_not_name next_line = None
               then Some next_line else None)
      else None)"

text \<open>What the lookahead of lines 459-498 carries from line to line.\<close>

record lq_state =
  lq_area :: "rat option"
  lq_perim :: "rat option"
  lq_hgt :: "rat option"
  lq_pattern_used :: "string option"

text \<open>The value line after a bare label (lines 477-478), when there is one.\<close>

definition lq_split_value :: "string list \<Rightarrow> nat \<Rightarrow> string \<Rightarrow> mstate option" where
  "lq_split_value lines j cur =
     (if cur \<in> set [''NRF:'', ''NRF='', ''F:'', ''F=''] \<and> j + 1 < length lines
      then re_match False area_value (line_at lines (j + 1)) else None)"

fun lq_lookahead :: "string list \<Rightarrow> lq_state \<Rightarrow> nat list \<Rightarrow> error + lq_state" where
  "lq_lookahead lines st [] = Inr st"
| "lq_lookahead lines st (j # js) =
     (let cur = line_at lines j;
          nrf_match = re_match True lq_nrf cur;
          f_match = re_match True lq_f cur;
          area_match = lq_split_value lines j cur;
          u_match = re_match True lq_perimeter cur;
          lh_match = re_match True lq_height cur
      in if nrf_match \<noteq> None \<and> lq_area st = None
         then bind_res (parse_german_number (group1 (the nrf_match))) (\<lambda>a.
                lq_lookahead lines (st\<lparr>lq_area := Some a, lq_pattern_used := Some ''NRF:''\<rparr>) js)
         else if f_match \<noteq> None \<and> lq_area st = None
         then bind_res (parse_german_number (group1 (the f_match))) (\<lambda>a.
                lq_lookahead lines (st\<lparr>lq_area := Some a, lq_pattern_used := Some ''F=''\<rparr>) js)
         else if area_match \<noteq> None \<and> lq_area st = None
         then bind_res (parse_german_number (group1 (the area_match))) (\<lambda>a.
                lq_lookahead lines (st\<lparr>lq_area := Some a, lq_pattern_used := Some cur\<rparr>) js)
         else if u_match \<noteq> None
         then bind_res (parse_german_number (group1 (the u_match))) (\<lambda>v.
                lq_lookahead lines (st\<lparr>lq_perim := Some v\<rparr>) js)
         else if lh_match \<noteq> None
         then bind_res (parse_german_number (group1 (the lh_match))) (\<lambda>v.
                lq_lookahead lines (st\<lparr>lq_hgt := Some v\<rparr>) js)
         else if re_match False lq_room_pattern cur \<noteq> None then Inr st
         else lq_lookahead lines st js)"

definition lq_room :: "string \<Rightarrow> string option \<Rightarrow> nat \<Rightarrow> rat \<Rightarrow> lq_state \<Rightarrow> extracted_room" where
  "lq_room room_num name page_idx area st =
     \<lparr> room_number = room_num, room_name = name_or name ''Unknown'', area_m2 = area,
       counted_m2 = area, factor = 1, page = page_idx,
       source_text = name_or (lq_pattern_used st) ''NRF:'' @ '' '' @ float_str area,
       category = categorize_room (name_or name []),
       perimeter_m = lq_perim st, height_m = lq_hgt st, factor_source = None,
       extraction_pattern = name_or (lq_pattern_used st) ''NRF:'' \<rparr>"

definition leiq_at :: "string list \<Rightarrow> nat \<Rightarrow> nat \<Rightarrow> error + extracted_room list" where
  "leiq_at lines page_idx i =
     (case re_match False lq_room_pattern (line_at lines i) of
        None \<Rightarrow> Inr []
      | Some room_match \<Rightarrow>
          bind_res (lq_lookahead lines
                      \<lparr>lq_area = None, lq_perim = None, lq_hgt = None, lq_pattern_used = None\<rparr>
                      (window lines i)) (\<lambda>st.
            if truthy (lq_area st)
            then Inr [lq_room (group1 room_match) (lq_room_name lines i) page_idx (the (lq_area st)) st]
            else Inr []))"

definition extract_leiq :: "string list \<Rightarrow> nat \<Rightarrow> error + extracted_room list" where
  "extract_leiq lines page_idx = collect (leiq_at lines page_idx) [0 ..< length lines]"

section \<open>\<open>extract_omniturm\<close>, lines 519-588\<close>

text \<open>\<^verbatim>\<open>^(\d+_[a-z]\d+\.\d+|BT\d+\.[A-Z]+\.\d+)\<close>.\<close>

definition om_room_pattern :: re where
  "om_room_pattern =
     seqs [Bol, Grp (Alt (seqs [Plus digit, Chr CHR ''_'', Cls lower_chars, Plus digit, Chr CHR ''.'',
                               Plus digit])
                        (seqs [lit ''BT'', Plus digit, Chr CHR ''.'', Plus (Cls upper_chars),
                               Chr CHR ''.'', Plus digit]))]"

text \<open>\<^verbatim>\<open>^(NGF|UKRD|UKFD|OKFF|OKRF|LRH|[\d,]+\s*m|Schacht)\<close>.\<close>

definition om_not_name :: re where
  "om_not_name =
     seqs [Bol, Grp (alts [lit ''NGF'', lit ''UKRD'', lit ''UKFD'', lit ''OKFF'', lit ''OKRF'', lit ''LRH'',
             seqs [Plus (Cls (digit_chars @ '','')), ws, Chr CHR ''m''], lit ''Schacht''])]"

text \<open>\<^verbatim>\<open>^NGF:\s*([\d.,]+)\s*m[\xb22]?\<close> (ignoring case), \<^verbatim>\<open>^(Schacht \d+)\<close> and
  \<^verbatim>\<open>^[\d,]\<close>; the value lines use \<^verbatim>\<open>^([\d.,]+)\s*m[\xb22]?\<close> after a bare label and
  \<^verbatim>\<open>^([\d,]+)\s*m[\xb22]?\<close> under a shaft.\<close>

definition om_ngf :: re where
  "om_ngf = seqs [Bol, lit ''NGF:'', ws, number_token, unit_m2]"

definition om_schacht :: re where
  "om_schacht = seqs [Bol, Grp (Seq (lit ''Schacht '') (Plus digit))]"

definition om_starts_numeric :: re where
  "om_starts_numeric = seqs [Bol, Cls (digit_chars @ '','')]"

text \<open>Lines 543-546: the first line of the window that can be a name.\<close>

definition om_name_step :: "string option \<Rightarrow> string \<Rightarrow> string option" where
  "om_name_step name cur =
     (if name = None \<and> cur \<noteq> [] \<and> re_match False om_not_name cur = None then Some cur else name)"

text \<open>The loop over \<open>j\<close> of lines 537-570; the result is \<open>(room_name, area)\<close>.\<close>

fun om_lookahead ::
  "string list \<Rightarrow> string option \<Rightarrow> nat list \<Rightarrow> error + (string option \<times> rat option)" where
  "om_lookahead lines name [] = Inr (name, None)"
| "om_lookahead lines name0 (j # js) =
     (let cur = line_at lines j in
      if re_match False om_room_pattern cur \<noteq> None then Inr (name0, None)
      else
        let name = om_name_step name0 cur in
        case re_match True om_ngf cur of
          Some ngf_match \<Rightarrow>
            bind_res (parse_german_number (group1 ngf_match)) (\<lambda>a. Inr (name, Some a))
        | None \<Rightarrow>
           (case (if cur = ''NGF:'' \<and> j + 1 < length lines
                  then re_match False area_value (line_at lines (j + 1)) else None) of
              Some area_match \<Rightarrow>
                bind_res (parse_german_number (group1 area_match)) (\<lambda>a. Inr (name, Some a))
            | None \<Rightarrow>
               (case re_match False om_schacht cur of
                  None \<Rightarrow> om_lookahead lines name js
                | Some schacht_match \<Rightarrow>
                    if j + 2 < length lines
                    then
                      let type_line = line_at lines (j + 1);
                          area_line = line_at lines (j + 2);
                          sname = (if re_match False om_starts_numeric type_line = None
                                   then group1 schacht_match @ '' ('' @ type_line @ '')''
                                   else group1 schacht_match)
                      in (case re_match False hr_area_value area_line of
                            Some area_match \<Rightarrow>
                              bind_res (parse_german_number (group1 area_match)) (\<lambda>a.
                                Inr (Some sname, Some a))
                          | None \<Rightarrow> om_lookahead lines (Some sname) js)
                    else om_lookahead lines (Some (group1 schacht_match)) js)))"

definition om_room :: "string \<Rightarrow> string option \<Rightarrow> nat \<Rightarrow> rat \<Rightarrow> extracted_room" where
  "om_room room_num name page_idx area =
     \<lparr> room_number = room_num, room_name = name_or name ''Unknown'', area_m2 = area,
       counted_m2 = area, factor = 1, page = page_idx,
       source_text = ''NGF: '' @ float_str area,
       category = categorize_room (name_or name []),
       perimeter_m = None, height_m = None, factor_source = None,
       extraction_pattern = ''NGF:'' \<rparr>"

text \<open>The outer loop, with the set \<open>processed\<close> of the anchors already emitted.\<close>

fun om_loop :: "string list \<Rightarrow> nat \<Rightarrow> string set \<Rightarrow> nat list \<Rightarrow> error + extracted_room list" where
  "om_loop lines page_idx processed [] = Inr []"
| "om_loop lines page_idx processed (i # is) =
     (let line = line_at lines i in
      if re_match False om_room_pattern line \<noteq> None \<and> line \<notin> processed
      then bind_res (om_lookahead lines None (window lines i)) (\<lambda>(name, area).
             if truthy area
             then bind_res (om_loop lines page_idx (insert line processed) is) (\<lambda>rooms.
                    Inr (om_room line name page_idx (the area) # rooms))
             else om_loop lines page_idx processed is)
      else om_loop lines page_idx processed is)"

definition extract_omniturm :: "string list \<Rightarrow> nat \<Rightarrow> error + extracted_room list" where
  "extract_omniturm lines page_idx = om_loop lines page_idx {} [0 ..< length lines]"

section \<open>\<open>extract_generic\<close>, lines 591-682\<close>

text \<open>\<^verbatim>\<open>FLEXIBLE_AREA_PATTERNS\<close> (all three ignore case; they are used with \<open>search\<close>) and
  \<^verbatim>\<open>FLEXIBLE_ROOM_PATTERNS\<close> (the second one is case-sensitive).\<close>

definition eq_colon :: re where
  "eq_colon = seqs [ws, Cls ''=:'', ws]"

definition FLEXIBLE_AREA_PATTERNS :: "re list" where
  "FLEXIBLE_AREA_PATTERNS =
    [seqs [alts [lit ''NRF'', lit ''NGF'', lit ''BGF'', lit (''Fl'' @ [CHR 0xE4] @ ''che''), lit ''Fl'',
                 lit ''FL'', lit ''GF'', lit ''WF'', lit ''NF''], eq_colon, number_token, unit_m2],
     seqs [Bol, Chr CHR ''F'', eq_colon, number_token, unit_m2],
     seqs [alts [lit ''NRF'', lit ''NGF'', lit (''Fl'' @ [CHR 0xE4] @ ''che'')], eq_colon, number_token,
           ws, lit ''qm'', Wb]]"

definition sep :: re where
  "sep = Cls ''._''"

definition alnum :: re where
  "alnum = Cls (upper_chars @ digit_chars)"

definition FLEXIBLE_ROOM_PATTERNS :: "(bool \<times> re) list" where
  "FLEXIBLE_ROOM_PATTERNS =
    [(True, seqs [Bol, Grp (seqs [Plus (Cls upper_chars), Star digit, sep, Plus alnum, sep, Plus alnum,
                    sep, Plus alnum])]),
     (False, seqs [Bol, Grp (seqs [Plus digit, Chr CHR ''_'', Cls lower_chars, Plus digit, Chr CHR ''.'',
                     Plus digit])]),
     (True, seqs [Bol, Grp (seqs [Cls ''EOU'', Chr CHR ''G'', Star digit, sep, digit, digit, digit])]),
     (True, seqs [Bol, Grp (seqs [Cls upper_chars, sep, digit, digit, digit])])]"

text \<open>An entry of \<open>found_areas\<close>; its key \<open>pattern\<close> is never read and is left out.\<close>

record area_info =
  line_idx :: nat
  area :: rat
  source_line :: string

fun first_search :: "re list \<Rightarrow> string \<Rightarrow> mstate option" where
  "first_search [] line = None"
| "first_search (p # ps) line =
     (case re_search True p line of None \<Rightarrow> first_search ps line | Some m \<Rightarrow> Some m)"

text \<open>First pass (lines 600-617): the area of a line, if a pattern finds one, it parses
  and it lies in the plausible range; a \<open>ValueError\<close> is caught here.\<close>

definition area_of_line :: "string list \<Rightarrow> nat \<Rightarrow> area_info list" where
  "area_of_line lines i =
     (let line = line_at lines i in
      case first_search FLEXIBLE_AREA_PATTERNS line of
        None \<Rightarrow> []
      | Some m \<Rightarrow>
         (case parse_german_number (group1 m) of
            Inl ValueError \<Rightarrow> []
          | Inr a \<Rightarrow> if 1 / 2 \<le> a \<and> a \<le> 10000
                     then [\<lparr>line_idx = i, area = a, source_line = line\<rparr>] else []))"

definition find_areas :: "string list \<Rightarrow> area_info list" where
  "find_areas lines = concat (map (area_of_line lines) [0 ..< length lines])"

text \<open>Second pass (lines 620-629): the dictionary \<open>found_room_ids\<close>, in insertion order.\<close>

fun find_room_ids :: "string list \<Rightarrow> (string \<times> nat) list \<Rightarrow> nat list \<Rightarrow> (string \<times> nat) list" where
  "find_room_ids lines found [] = found"
| "find_room_ids lines found (i # is) =
     (case first_match FLEXIBLE_ROOM_PATTERNS (line_at lines i) of
        None \<Rightarrow> find_room_ids lines found is
      | Some m \<Rightarrow>
          if group1 m \<notin> fst ` set found
          then find_room_ids lines (found @ [(group1 m, i)]) is
          else find_room_ids lines found is)"

text \<open>Third pass. Lines 643-645: the distance of an area line from the identifier's
  line, less one half when the area comes after it.\<close>

definition distance :: "nat \<Rightarrow> nat \<Rightarrow> rat" where
  "distance area_line room_line =
     (if area_line > room_line then of_int \<bar>int area_line - int room_line\<bar> - 1 / 2
      else of_int \<bar>int area_line - int room_line\<bar>)"

text \<open>Lines 639-650: the scan over \<open>enumerate(found_areas)\<close>; \<open>best\<close> is
  \<open>(best_distance, best_area_idx, best_area)\<close>, or \<open>None\<close> for the initial infinity.\<close>

fun best_scan ::
  "nat set \<Rightarrow> nat \<Rightarrow> (rat \<times> nat \<times> area_info) option \<Rightarrow> (nat \<times> area_info) list \<Rightarrow>
   (rat \<times> nat \<times> area_info) option" where
  "best_scan used room_line best [] = best"
| "best_scan used room_line best ((area_idx, info) # others) =
     (if area_idx \<in> used then best_scan used room_line best others
      else
        let d = distance (line_idx info) room_line in
        if (case best of None \<Rightarrow> True | Some (bd, bi, ba) \<Rightarrow> d < bd) \<and> d < 15
        then best_scan used room_line (Some (d, area_idx, info)) others
        else best_scan used room_line best others)"

definition best_area_for :: "area_info list \<Rightarrow> nat set \<Rightarrow> nat \<Rightarrow> (rat \<times> nat \<times> area_info) option" where
  "best_area_for found_areas used room_line =
     best_scan used room_line None (zip [0 ..< length found_areas] found_areas)"

text \<open>Lines 659-668: the room name, from the lines between the identifier and its area.\<close>

definition gen_numeric_only :: re where
  "gen_numeric_only = seqs [Bol, Plus (Cls (digit_chars @ '',.'' @ space_chars)), Eol]"

definition gen_label :: re where
  "gen_label =
     seqs [Bol, Grp (alts [lit ''NRF'', lit ''NGF'', lit ''F'', lit ''U'', lit ''LH'', lit ''BA'', lit ''B'',
             lit ''W'', lit ''D'', lit ''OK'', lit ''UK'', lit ''UKRD'', lit ''OKFF'']),
           Cls (space_chars @ '':='')]"

definition gen_value_only :: re where
  "gen_value_only = seqs [Bol, Plus (Cls (digit_chars @ ''.,'')), unit_m2, Eol]"

definition name_candidate :: "string \<Rightarrow> bool" where
  "name_candidate candidate =
     (candidate \<noteq> [] \<and> length candidate > 1 \<and>
      re_match False gen_numeric_only candidate = None \<and>
      re_match True gen_label candidate = None \<and>
      re_match False gen_value_only candidate = None)"

fun first_name :: "string list \<Rightarrow> nat list \<Rightarrow> string option" where
  "first_name lines [] = None"
| "first_name lines (j # js) =
     (if j < length lines \<and> name_candidate (line_at lines j) then Some (line_at lines j)
      else first_name lines js)"

definition generic_room_name :: "string list \<Rightarrow> nat \<Rightarrow> nat \<Rightarrow> string option" where
  "generic_room_name lines room_line area_line =
     first_name lines [room_line + 1 ..< min area_line (room_line + 1 + 5)]"

definition generic_room :: "string list \<Rightarrow> nat \<Rightarrow> string \<Rightarrow> nat \<Rightarrow> area_info \<Rightarrow> extracted_room" where
  "generic_room lines page_idx room_id room_line best =
     (let name = generic_room_name lines room_line (line_idx best)
      in \<lparr> room_number = room_id, room_name = name_or name ''Unknown'', area_m2 = area best,
           counted_m2 = area best, factor = 1, page = page_idx,
           source_text = source_line best,
           category = categorize_room (name_or name []),
           perimeter_m = None, height_m = None, factor_source = None,
           extraction_pattern = ''generic'' \<rparr>)"

text \<open>Lines 632-680: the identifiers in the order of the dictionary, with the set
  \<open>used_areas\<close>.\<close>

fun third_pass ::
  "string list \<Rightarrow> nat \<Rightarrow> area_info list \<Rightarrow> nat set \<Rightarrow> (string \<times> nat) list \<Rightarrow> extracted_room list" where
  "third_pass lines page_idx found_areas used [] = []"
| "third_pass lines page_idx found_areas used ((room_id, room_line) # ids) =
     (case best_area_for found_areas used room_line of
        None \<Rightarrow> third_pass lines page_idx found_areas used ids
      | Some (d, best_idx, best) \<Rightarrow>
          generic_room lines page_idx room_id room_line best #
          third_pass lines page_idx found_areas (insert best_idx used) ids)"

definition extract_generic :: "string list \<Rightarrow> nat \<Rightarrow> extracted_room list" where
  "extract_generic lines page_idx =
     third_pass lines page_idx (find_areas lines) {}
       (find_room_ids lines [] [0 ..< length lines])"

section \<open>\<open>detect_blueprint_style\<close>, lines 276-323\<close>

definition probe :: "bool \<Rightarrow> re \<Rightarrow> string \<Rightarrow> bool" where
  "probe ic p text = (re_search ic p text \<noteq> None)"

definition digits_commas :: re where
  "digits_commas = Plus (Cls (digit_chars @ '',''))"

definition digits_points :: re where
  "digits_points = Plus (Cls (digit_chars @ ''.,''))"

definition has_f_colon :: "string \<Rightarrow> bool" where
  "has_f_colon = probe False (seqs [Wb, lit ''F:'', ws, digits_commas])"

definition has_f_equals :: "string \<Rightarrow> bool" where
  "has_f_equals = probe False (seqs [Wb, lit ''F='', ws, digits_points])"

definition has_nrf :: "string \<Rightarrow> bool" where
  "has_nrf = probe True (seqs [Wb, lit ''NRF:'', ws, digits_commas])"

definition has_ngf :: "string \<Rightarrow> bool" where
  "has_ngf = probe True (seqs [Wb, lit ''NGF:'', ws, digits_points])"

definition has_r_full :: "string \<Rightarrow> bool" where
  "has_r_full = probe False (seqs [Wb, Chr CHR ''R'', Plus digit, Chr CHR ''.'', Chr CHR ''E'', Plus digit,
                                   Chr CHR ''.'', Plus digit, Chr CHR ''.'', Plus digit, Wb])"

definition has_r_simple :: "string \<Rightarrow> bool" where
  "has_r_simple = probe False (seqs [Wb, Chr CHR ''R'', Plus digit, Cls upper_chars, Wb])"

definition has_e_apartment :: "string \<Rightarrow> bool" where
  "has_e_apartment = probe False (seqs [Wb, Chr CHR ''E'', Chr CHR ''.'', Plus alnum, Chr CHR ''.'',
                                        Plus digit, Chr CHR ''.'', Plus digit, Wb])"

definition has_b_pattern :: "string \<Rightarrow> bool" where
  "has_b_pattern = probe False (seqs [Wb, Chr CHR ''B'', Chr CHR ''.'', Plus digit, Chr CHR ''.'',
                                      Plus digit, Chr CHR ''.'', Plus digit, Wb])"

definition has_grid_pattern :: "string \<Rightarrow> bool" where
  "has_grid_pattern = probe False (seqs [Wb, Plus digit, Chr CHR ''_'', Cls lower_chars, Plus digit,
                                         Chr CHR ''.'', Plus digit, Wb])"

definition has_haardtring_codes :: "string \<Rightarrow> bool" where
  "has_haardtring_codes =
     probe False (seqs [Wb, Grp (alts [lit ''BA:'', lit ''B:'', lit ''W:'', lit ''D:'']), ws, digit])"

definition has_haardtring_rooms :: "string \<Rightarrow> bool" where
  "has_haardtring_rooms text = (has_r_full text \<or> has_r_simple text \<or> has_e_apartment text)"

definition detect_blueprint_style :: "string \<Rightarrow> blueprint_style" where
  "detect_blueprint_style text =
     (if has_f_colon text \<and> has_haardtring_rooms text then Haardtring
      else if has_f_colon text \<and> has_haardtring_codes text then Haardtring
      else if has_nrf text \<and> has_b_pattern text then Leiq
      else if has_f_equals text \<and> has_b_pattern text then Leiq
      else if has_ngf text \<and> (has_grid_pattern text \<or> has_b_pattern text) then Omniturm
      else if has_ngf text then Omniturm
      else if has_nrf text \<or> has_f_equals text then Leiq
      else if has_f_colon text then Haardtring
      else Unknown)"

section \<open>\<open>extract_room_areas\<close>, lines 689-816\<close>

text \<open>
  The document is what the PDF library hands over: the text of each page, in order. The
  failures of opening the file happen before this model starts. A page index is a
  natural number.
\<close>

record extraction_result =
  rooms :: "extracted_room list"
  total_area_m2 :: rat
  total_counted_m2 :: rat
  room_count :: nat
  page_count :: nat
  blueprint_style :: blueprint_style
  extraction_method :: string
  warnings :: "string list"
  totals_by_category :: "(string \<times> rat) list"

text \<open>The extraction functions as values that can be compared (\<^verbatim>\<open>alt_fn != extract_fn\<close>).\<close>

datatype extractor = ExHaardtring | ExLeiq | ExOmniturm | ExGeneric

definition run_extractor :: "extractor \<Rightarrow> string list \<Rightarrow> nat \<Rightarrow> error + extracted_room list" where
  "run_extractor f lines page_idx =
     (case f of ExHaardtring \<Rightarrow> extract_haardtring lines page_idx
      | ExLeiq \<Rightarrow> extract_leiq lines page_idx
      | ExOmniturm \<Rightarrow> extract_omniturm lines page_idx
      | ExGeneric \<Rightarrow> Inr (extract_generic lines page_idx))"

text \<open>Lines 743-747: the dispatch dictionary and its \<open>get\<close>.\<close>

definition extractor_for :: "blueprint_style \<Rightarrow> extractor option" where
  "extractor_for s = (case s of Haardtring \<Rightarrow> Some ExHaardtring | Leiq \<Rightarrow> Some ExLeiq
                      | Omniturm \<Rightarrow> Some ExOmniturm | Unknown \<Rightarrow> None)"

definition fallback_order :: "(blueprint_style \<times> extractor) list" where
  "fallback_order = [(Haardtring, ExHaardtring), (Leiq, ExLeiq), (Omniturm, ExOmniturm)]"

text \<open>Lines 773-783: the loop over the other extractors, left at the first one that finds
  rooms; the result is what it adds to \<open>rooms\<close> and to \<open>warnings\<close>.\<close>

fun try_fallbacks ::
  "extractor \<Rightarrow> string list \<Rightarrow> nat \<Rightarrow> (blueprint_style \<times> extractor) list \<Rightarrow>
   error + (extracted_room list \<times> string list)" where
  "try_fallbacks extract_fn lines page_idx [] = Inr ([], [])"
| "try_fallbacks extract_fn lines page_idx ((alt_style, alt_fn) # others) =
     (if alt_fn \<noteq> extract_fn
      then bind_res (run_extractor alt_fn lines page_idx) (\<lambda>alt_rooms.
             if alt_rooms \<noteq> []
             then Inr (alt_rooms, [''Page '' @ str_nat page_idx @ '': Used '' @ style_value alt_style @
                                   '' pattern as fallback''])
             else try_fallbacks extract_fn lines page_idx others)
      else try_fallbacks extract_fn lines page_idx others)"

text \<open>Lines 768-790: one page. \<open>page_rooms\<close> is the result of the selected extractor and
  is not assigned again.\<close>

definition process_page ::
  "extractor \<Rightarrow> string list \<Rightarrow> nat \<Rightarrow> error + (extracted_room list \<times> string list)" where
  "process_page extract_fn lines page_idx =
     bind_res (run_extractor extract_fn lines page_idx) (\<lambda>page_rooms.
       if page_rooms = []
       then bind_res (try_fallbacks extract_fn lines page_idx fallback_order) (\<lambda>(alt_rooms, alt_warn).
              if page_rooms = [] \<and> extract_fn \<noteq> ExGeneric
              then (let generic_rooms = extract_generic lines page_idx in
                    if generic_rooms \<noteq> []
                    then Inr (page_rooms @ alt_rooms @ generic_rooms,
                              alt_warn @ [''Page '' @ str_nat page_idx @
                                          '': Used generic flexible extraction''])
                    else Inr (page_rooms @ alt_rooms, alt_warn))
              else Inr (page_rooms @ alt_rooms, alt_warn))
       else Inr (page_rooms, []))"

text \<open>Lines 759-790: the loop over the requested pages.\<close>

fun page_loop ::
  "extractor \<Rightarrow> string list \<Rightarrow> extracted_room list \<times> string list \<Rightarrow> nat list \<Rightarrow>
   error + (extracted_room list \<times> string list)" where
  "page_loop extract_fn doc acc [] = Inr acc"
| "page_loop extract_fn doc acc (page_idx # idxs) =
     (if page_idx \<ge> length doc
      then page_loop extract_fn doc
             (fst acc, snd acc @ [''Page '' @ str_nat page_idx @ '' does not exist'']) idxs
      else bind_res (process_page extract_fn (split_lines (doc ! page_idx)) page_idx) (\<lambda>(rs, ws).
             page_loop extract_fn doc (fst acc @ rs, snd acc @ ws) idxs))"

text \<open>Lines 800-804: the dictionary of totals, \<^verbatim>\<open>totals.get(cat, 0) + room.counted_m2\<close>,
  then every value rounded.\<close>

definition add_total :: "(string \<times> rat) list \<Rightarrow> extracted_room \<Rightarrow> (string \<times> rat) list" where
  "add_total totals room =
     (let cat = category_value (category room)
      in AList.update cat ((case map_of totals cat of None \<Rightarrow> 0 | Some v \<Rightarrow> v) + counted_m2 room)
           totals)"

definition category_totals :: "extracted_room list \<Rightarrow> (string \<times> rat) list" where
  "category_totals rs = map (\<lambda>(k, v). (k, py_round2 v)) (foldl add_total [] rs)"

definition extract_room_areas ::
  "string list \<Rightarrow> blueprint_style option \<Rightarrow> nat list option \<Rightarrow> error + extraction_result" where
  "extract_room_areas doc style pages =
     (let full_text = concat doc;
          detected_style = (case style of Some s \<Rightarrow> s | None \<Rightarrow> detect_blueprint_style full_text);
          (extract_fn, warnings0) =
             (case extractor_for detected_style of
                Some f \<Rightarrow> (f, [])
              | None \<Rightarrow> (ExGeneric, [''Unknown blueprint style, trying flexible extraction'']));
          page_indices = (case pages of Some ps \<Rightarrow> ps | None \<Rightarrow> [0 ..< length doc])
      in bind_res (page_loop extract_fn doc ([], warnings0) page_indices) (\<lambda>(rs, ws).
           Inr \<lparr> rooms = rs,
                 total_area_m2 = py_round2 (sum_list (map area_m2 rs)),
                 total_counted_m2 = py_round2 (sum_list (map counted_m2 rs)),
                 room_count = length rs,
                 page_count = length doc,
                 blueprint_style = detected_style,
                 extraction_method = ''unified_extraction'',
                 warnings = ws,
                 totals_by_category = category_totals rs \<rparr>))"

section \<open>Specification-side notions\<close>

text \<open>The text of a page whose lines are \<open>ls\<close>, and the unit as the plans print it.\<close>

definition page_text :: "string list \<Rightarrow> string" where
  "page_text ls = (case ls of [] \<Rightarrow> [] | l # more_lines \<Rightarrow> foldl (\<lambda>t x. t @ [CHR 0x0A] @ x) l more_lines)"

definition sqm :: string where
  "sqm = '' m'' @ [CHR 0xB2]"

text \<open>The decision tree of the style detector as the specification words it: the colon
  label with a Haardtring room grammar or metadata codes; a modern or legacy label with
  the \<open>B.\<close> grammar; the \<open>NGF:\<close> label whatever the room grammar; then the lone labels,
  \<open>NRF:\<close> or \<open>F=\<close> before \<open>F:\<close>; otherwise unknown.\<close>

definition spec_detect :: "string \<Rightarrow> blueprint_style" where
  "spec_detect text =
     (if has_f_colon text \<and> (has_haardtring_rooms text \<or> has_haardtring_codes text) then Haardtring
      else if (has_nrf text \<or> has_f_equals text) \<and> has_b_pattern text then Leiq
      else if has_ngf text then Omniturm
      else if has_nrf text \<or> has_f_equals text then Leiq
      else if has_f_colon text then Haardtring
      else Unknown)"










text \<open>The plain distance in lines between an area and an identifier.\<close>

definition line_gap :: "nat \<Rightarrow> nat \<Rightarrow> nat" where
  "line_gap area_line room_line = (if area_line > room_line then area_line - room_line
                                   else room_line - area_line)"

text \<open>An area that an identifier on line \<open>room_line\<close> may still take.\<close>

definition eligible :: "area_info list \<Rightarrow> nat set \<Rightarrow> nat \<Rightarrow> nat \<Rightarrow> bool" where
  "eligible found_areas used room_line k =
     (k < length found_areas \<and> k \<notin> used \<and> distance (line_idx (found_areas ! k)) room_line < 15)"

text \<open>Pages worked out below, with the rooms and the result they give.\<close>

definition schlafen_page :: "string list" where
  "schlafen_page = [''R2.E5.3.5'', ''Schlafen'', ''F: 12,34'' @ sqm]"

definition schlafen_room :: extracted_room where
  "schlafen_room =
     \<lparr> room_number = ''R2.E5.3.5'', room_name = ''Schlafen'', area_m2 = 1234 / 100,
       counted_m2 = 1234 / 100, factor = 1, page = 0, source_text = ''F: 12.34'',
       category = Residential, perimeter_m = None, height_m = None, factor_source = None,
       extraction_pattern = ''F:'' \<rparr>"



definition leiq_balkon_page :: "string list" where
  "leiq_balkon_page = [''B.00.2.002'', ''Balkon'', ''NRF: 10,00 m2'']"

definition leiq_balkon_room :: extracted_room where
  "leiq_balkon_room =
     \<lparr> room_number = ''B.00.2.002'', room_name = ''Balkon'', area_m2 = 10,
       counted_m2 = 10, factor = 1, page = 0, source_text = ''NRF: 10.0'',
       category = Outdoor, perimeter_m = None, height_m = None,
       factor_source = None, extraction_pattern = ''NRF:'' \<rparr>"

definition schacht_page :: "string list" where
  "schacht_page = [''03_b6.12'', ''Schacht 01'', ''Abluft'', ''5,00'' @ sqm]"

definition schacht_room :: extracted_room where
  "schacht_room =
     \<lparr> room_number = ''03_b6.12'', room_name = ''Schacht 01 (Abluft)'', area_m2 = 5,
       counted_m2 = 5, factor = 1, page = 0, source_text = ''NGF: 5.0'',
       category = Shafts, perimeter_m = None, height_m = None,
       factor_source = None, extraction_pattern = ''NGF:'' \<rparr>"

definition greedy_page :: "string list" where
  "greedy_page = [''A.001'', [], ''NF:7m'', ''B.002'']"

definition far_page :: "string list" where
  "far_page = ''A.001'' # replicate 14 [] @ [''NF:7m'']"

definition nf_room :: extracted_room where
  "nf_room =
     \<lparr> room_number = ''A.001'', room_name = ''Unknown'', area_m2 = 7,
       counted_m2 = 7, factor = 1, page = 0, source_text = ''NF:7m'',
       category = Other, perimeter_m = None, height_m = None,
       factor_source = None, extraction_pattern = ''generic'' \<rparr>"

definition fallback_doc :: "string list" where
  "fallback_doc = [page_text schlafen_page]"

definition fallback_result :: extraction_result where
  "fallback_result =
     \<lparr> rooms = [schlafen_room,
                 schlafen_room \<lparr> source_text := ''F: 12,34'' @ sqm, extraction_pattern := ''generic'' \<rparr>],
       total_area_m2 = 2468 / 100, total_counted_m2 = 2468 / 100, room_count = 2, page_count = 1,
       blueprint_style = Leiq, extraction_method = ''unified_extraction'',
       warnings = [''Page 0: Used haardtring pattern as fallback'',
                   ''Page 0: Used generic flexible extraction''],
       totals_by_category = [(''residential'', 2468 / 100)] \<rparr>"

section \<open>The number parser meets its rule\<close>

lemma replace_char_remove: "replace_char a [] s = filter (\<lambda>c. c \<noteq> a) s"
  by (induction s) (simp_all add: replace_char_def)

lemma replace_char_map: "replace_char a [b] s = map (\<lambda>c. if c = a then b else c) s"
  by (induction s) (simp_all add: replace_char_def)

lemma replace_char_absent: "a \<notin> set s \<Longrightarrow> replace_char a b s = s"
  by (induction s) (auto simp add: replace_char_def)

lemma parse_german_number_spec: "parse_german_number s = spec_parse_number s"
proof (cases "CHR '','' \<in> set (strip s)")
  case True
  then show ?thesis
    by (simp add: parse_german_number_def spec_parse_number_def spec_rewrite_def py_float_def
        replace_char_remove replace_char_map Let_def)
next
  case False
  then show ?thesis
    by (simp add: parse_german_number_def spec_parse_number_def spec_rewrite_def py_float_def
        replace_char_absent Let_def)
qed

text \<open>
  C9. For every token the number parser follows the three-case rule of the specification:
  a token with both a period and a comma has its periods removed and its commas read
  as the decimal point, a token with only a comma has the comma read as the decimal
  point, any other token is read as it is; the result is \<open>ValueError\<close> exactly when the
  rewritten string is not numeric. \<open>1.070,55\<close> gives 1070.55, \<open>22,79\<close> gives 22.79 and
  \<open>50.37\<close> gives 50.37.
\<close>

theorem parse_german_number_rule:
  "parse_german_number s = spec_parse_number s \<and>
   (parse_german_number s = Inl ValueError \<longleftrightarrow> \<not> is_numeric (spec_rewrite (strip s))) \<and>
   parse_german_number ''1.070,55'' = Inr (107055 / 100) \<and>
   parse_german_number ''22,79'' = Inr (2279 / 100) \<and>
   parse_german_number ''50.37'' = Inr (5037 / 100)"
proof -
  have eq: "parse_german_number s = spec_parse_number s"
    by (rule parse_german_number_spec)
  have err: "parse_german_number s = Inl ValueError \<longleftrightarrow> \<not> is_numeric (spec_rewrite (strip s))"
    unfolding eq by (simp add: spec_parse_number_def Let_def)
  have e1: "parse_german_number ''1.070,55'' = Inr (107055 / 100)" by code_simp
  have e2: "parse_german_number ''22,79'' = Inr (2279 / 100)" by code_simp
  have e3: "parse_german_number ''50.37'' = Inr (5037 / 100)" by code_simp
  from eq err e1 e2 e3 show ?thesis by blast
qed

theorem parse_german_number_rule_witness:
  "parse_german_number ''1.234,5'' = spec_parse_number ''1.234,5'' \<and>
   spec_parse_number ''1.234,5'' = Inr (12345 / 10) \<and>
   parse_german_number ''1,2,3'' = Inl ValueError"
proof -
  have a: "spec_parse_number ''1.234,5'' = Inr (12345 / 10)" by code_simp
  have b: "\<not> is_numeric (spec_rewrite (strip ''1,2,3''))" by code_simp
  from a b parse_german_number_rule [of "''1.234,5''"] parse_german_number_rule [of "''1,2,3''"]
  show ?thesis by metis
qed

section \<open>What an extractor emits\<close>

subsection \<open>Every room comes from an anchor and its lookahead\<close>

lemma bind_res_Inr: "bind_res r f = Inr y \<longleftrightarrow> (\<exists>v. r = Inr v \<and> f v = Inr y)"
  by (cases r) (simp_all add: bind_res_def)

lemma collect_mem:
  "collect f is = Inr rs \<Longrightarrow> r \<in> set rs \<Longrightarrow> \<exists>i \<in> set is. \<exists>xs. f i = Inr xs \<and> r \<in> set xs"
proof (induction "is" arbitrary: rs)
  case Nil
  then show ?case by simp
next
  case (Cons i "is")
  from Cons.prems(1) obtain xs ys where f: "f i = Inr xs" and c: "collect f is = Inr ys"
    and rs: "rs = xs @ ys"
    by (auto simp: bind_res_Inr)
  with Cons.prems(2) have "r \<in> set xs \<or> r \<in> set ys" by simp
  then show ?case
  proof
    assume "r \<in> set xs"
    with f show ?thesis by auto
  next
    assume "r \<in> set ys"
    from Cons.IH [OF c this] show ?thesis by auto
  qed
qed

lemma haardtring_at_room:
  assumes "haardtring_at lines p i = Inr xs" and "r \<in> set xs"
  shows "\<exists>rm a b. first_match hr_room_patterns (line_at lines i) = Some rm \<and>
           hr_lookahead lines (window lines i) = Inr (Some a, b) \<and> a \<noteq> 0 \<and>
           r = hr_room (group1 rm) (hr_room_name lines i) p a b"
  using assms
  by (auto simp: haardtring_at_def bind_res_Inr truthy_def split: option.splits if_splits)

lemma leiq_at_room:
  assumes "leiq_at lines p i = Inr xs" and "r \<in> set xs"
  shows "\<exists>rm st a. re_match False lq_room_pattern (line_at lines i) = Some rm \<and>
           lq_lookahead lines \<lparr>lq_area = None, lq_perim = None, lq_hgt = None, lq_pattern_used = None\<rparr>
             (window lines i) = Inr st \<and> lq_area st = Some a \<and> a \<noteq> 0 \<and>
           r = lq_room (group1 rm) (lq_room_name lines i) p a st"
  using assms
  by (auto simp: leiq_at_def bind_res_Inr truthy_def split: option.splits if_splits)

lemma om_loop_room:
  "om_loop lines p processed is = Inr rs \<Longrightarrow> r \<in> set rs \<Longrightarrow>
   \<exists>i \<in> set is. \<exists>name a. re_match False om_room_pattern (line_at lines i) \<noteq> None \<and>
      om_lookahead lines None (window lines i) = Inr (name, Some a) \<and> a \<noteq> 0 \<and>
      r = om_room (line_at lines i) name p a"
proof (induction "is" arbitrary: processed rs)
  case Nil
  then show ?case by simp
next
  case (Cons i "is")
  show ?case
  proof (cases "re_match False om_room_pattern (line_at lines i) \<noteq> None \<and> line_at lines i \<notin> processed")
    case False
    with Cons.prems(1) have "om_loop lines p processed is = Inr rs"
      by (auto simp: Let_def)
    from Cons.IH [OF this Cons.prems(2)] show ?thesis by auto
  next
    case True
    with Cons.prems(1) obtain name ar where
      la: "om_lookahead lines None (window lines i) = Inr (name, ar)" and
      rest: "(if truthy ar
              then bind_res (om_loop lines p (insert (line_at lines i) processed) is)
                     (\<lambda>rooms. Inr (om_room (line_at lines i) name p (the ar) # rooms))
              else om_loop lines p processed is) = Inr rs"
      by (auto simp: Let_def bind_res_Inr)
    show ?thesis
    proof (cases "truthy ar")
      case False
      with rest have "om_loop lines p processed is = Inr rs" by simp
      from Cons.IH [OF this Cons.prems(2)] show ?thesis by auto
    next
      case t: True
      then obtain a where ar: "ar = Some a" and a0: "a \<noteq> 0"
        by (auto simp: truthy_def split: option.splits)
      from rest t obtain rooms' where
        l: "om_loop lines p (insert (line_at lines i) processed) is = Inr rooms'" and
        rs: "rs = om_room (line_at lines i) name p (the ar) # rooms'"
        by (auto simp: bind_res_Inr)
      from Cons.prems(2) rs have "r = om_room (line_at lines i) name p a \<or> r \<in> set rooms'"
        using ar by auto
      then show ?thesis
      proof
        assume "r = om_room (line_at lines i) name p a"
        with True la ar a0 show ?thesis by auto
      next
        assume "r \<in> set rooms'"
        from Cons.IH [OF l this] show ?thesis by auto
      qed
    qed
  qed
qed

subsection \<open>The lookahead stops at the first area token of the window\<close>













subsection \<open>The areas and the choice of the generic extractor\<close>

lemma area_of_line_facts:
  assumes a: "a \<in> set (area_of_line lines i)"
  shows "1 / 2 \<le> area a \<and> area a \<le> 10000 \<and> line_idx a = i \<and> source_line a = line_at lines i"
proof (cases "first_search FLEXIBLE_AREA_PATTERNS (line_at lines i)")
  case None
  with a show ?thesis by (simp add: area_of_line_def)
next
  case (Some m)
  show ?thesis
  proof (cases "parse_german_number (group1 m)")
    case (Inl e)
    with a Some show ?thesis by (cases e) (simp add: area_of_line_def)
  next
    case (Inr v)
    show ?thesis
    proof (cases "1 / 2 \<le> v \<and> v \<le> 10000")
      case True
      with a Some Inr have "a = \<lparr>line_idx = i, area = v, source_line = line_at lines i\<rparr>"
        by (simp add: area_of_line_def)
      with True show ?thesis by simp
    next
      case False
      with a Some Inr show ?thesis by (simp add: area_of_line_def)
    qed
  qed
qed

lemma find_areas_facts:
  assumes "a \<in> set (find_areas lines)"
  shows "1 / 2 \<le> area a \<and> area a \<le> 10000 \<and> line_idx a < length lines \<and>
         source_line a = line_at lines (line_idx a)"
proof -
  from assms obtain i where i: "i < length lines" and "a \<in> set (area_of_line lines i)"
    by (auto simp: find_areas_def)
  from area_of_line_facts [OF this(2)] i show ?thesis by simp
qed

lemma best_scan_Some:
  "best_scan used rl best xs = Some (d, k, a) \<Longrightarrow>
   best = Some (d, k, a) \<or>
   ((k, a) \<in> set xs \<and> k \<notin> used \<and> d = distance (line_idx a) rl \<and> d < 15)"
proof (induction xs arbitrary: best)
  case Nil
  then show ?case by simp
next
  case (Cons x xs)
  obtain k0 a0 where x: "x = (k0, a0)" by (cases x)
  let ?d = "distance (line_idx a0) rl"
  let ?upd = "k0 \<notin> used \<and> (case best of None \<Rightarrow> True | Some (bd, bi, ba) \<Rightarrow> ?d < bd) \<and> ?d < 15"
  show ?case
  proof (cases ?upd)
    case True
    with Cons.prems x have "best_scan used rl (Some (?d, k0, a0)) xs = Some (d, k, a)"
      by (simp add: Let_def)
    from Cons.IH [OF this] have "(d = ?d \<and> k = k0 \<and> a = a0) \<or>
        ((k, a) \<in> set xs \<and> k \<notin> used \<and> d = distance (line_idx a) rl \<and> d < 15)" by blast
    with True x show ?thesis by auto
  next
    case False
    with Cons.prems x have "best_scan used rl best xs = Some (d, k, a)"
      by (auto simp: Let_def split: if_splits)
    from Cons.IH [OF this] show ?thesis by auto
  qed
qed

lemma best_scan_le:
  "best_scan used rl best xs = res \<Longrightarrow>
   (\<forall>bd bi ba. best = Some (bd, bi, ba) \<longrightarrow> (\<exists>d k a. res = Some (d, k, a) \<and> d \<le> bd)) \<and>
   (\<forall>k' a'. (k', a') \<in> set xs \<and> k' \<notin> used \<and> distance (line_idx a') rl < 15 \<longrightarrow>
       (\<exists>d k a. res = Some (d, k, a) \<and> d \<le> distance (line_idx a') rl))"
proof (induction xs arbitrary: best)
  case Nil
  then show ?case by auto
next
  case (Cons x xs)
  obtain k0 a0 where x: "x = (k0, a0)" by (cases x)
  let ?d = "distance (line_idx a0) rl"
  let ?upd = "k0 \<notin> used \<and> (case best of None \<Rightarrow> True | Some (bd, bi, ba) \<Rightarrow> ?d < bd) \<and> ?d < 15"
  show ?case
  proof (cases ?upd)
    case True
    with Cons.prems x have r: "best_scan used rl (Some (?d, k0, a0)) xs = res"
      by (simp add: Let_def)
    from Cons.IH [OF r] obtain d k a where res: "res = Some (d, k, a)" and le: "d \<le> ?d"
      by blast
    have ih2: "\<forall>k' a'. (k', a') \<in> set xs \<and> k' \<notin> used \<and> distance (line_idx a') rl < 15 \<longrightarrow>
       (\<exists>d k a. res = Some (d, k, a) \<and> d \<le> distance (line_idx a') rl)"
      using Cons.IH [OF r] by blast
    show ?thesis
    proof (intro conjI allI impI)
      fix bd bi ba assume "best = Some (bd, bi, ba)"
      with True have "?d < bd" by simp
      with res le show "\<exists>d k a. res = Some (d, k, a) \<and> d \<le> bd" by auto
    next
      fix k' a' assume h: "(k', a') \<in> set (x # xs) \<and> k' \<notin> used \<and> distance (line_idx a') rl < 15"
      show "\<exists>d k a. res = Some (d, k, a) \<and> d \<le> distance (line_idx a') rl"
      proof (cases "(k', a') = (k0, a0)")
        case True
        with res le show ?thesis by auto
      next
        case False
        with h x have "(k', a') \<in> set xs" by auto
        with h ih2 show ?thesis by blast
      qed
    qed
  next
    case False
    with Cons.prems x have r: "best_scan used rl best xs = res"
      by (auto simp: Let_def)
    have ih1: "\<forall>bd bi ba. best = Some (bd, bi, ba) \<longrightarrow> (\<exists>d k a. res = Some (d, k, a) \<and> d \<le> bd)"
      using Cons.IH [OF r] by blast
    have ih2: "\<forall>k' a'. (k', a') \<in> set xs \<and> k' \<notin> used \<and> distance (line_idx a') rl < 15 \<longrightarrow>
       (\<exists>d k a. res = Some (d, k, a) \<and> d \<le> distance (line_idx a') rl)"
      using Cons.IH [OF r] by blast
    show ?thesis
    proof (intro conjI allI impI)
      fix bd bi ba assume "best = Some (bd, bi, ba)"
      with ih1 show "\<exists>d k a. res = Some (d, k, a) \<and> d \<le> bd" by blast
    next
      fix k' a' assume h: "(k', a') \<in> set (x # xs) \<and> k' \<notin> used \<and> distance (line_idx a') rl < 15"
      show "\<exists>d k a. res = Some (d, k, a) \<and> d \<le> distance (line_idx a') rl"
      proof (cases "(k', a') = (k0, a0)")
        case True
        with h False obtain bd bi ba where b: "best = Some (bd, bi, ba)" and "\<not> ?d < bd"
          by (auto split: option.splits)
        with ih1 True show ?thesis by fastforce
      next
        case False
        with h x have "(k', a') \<in> set xs" by auto
        with h ih2 show ?thesis by blast
      qed
    qed
  qed
qed

lemma in_enumerate: "(k, a) \<in> set (zip [0 ..< length xs] xs) \<longleftrightarrow> k < length xs \<and> a = xs ! k"
proof
  assume "(k, a) \<in> set (zip [0 ..< length xs] xs)"
  then obtain n where "[0 ..< length xs] ! n = k" "xs ! n = a" "n < length xs"
    by (auto simp: in_set_zip)
  then show "k < length xs \<and> a = xs ! k" by simp
next
  assume "k < length xs \<and> a = xs ! k"
  then have "[0 ..< length xs] ! k = k \<and> xs ! k = a \<and> k < length [0 ..< length xs] \<and> k < length xs"
    by simp
  then show "(k, a) \<in> set (zip [0 ..< length xs] xs)"
    unfolding in_set_zip fst_conv snd_conv by blast
qed

lemma best_area_for_Some:
  assumes "best_area_for fa used rl = Some (d, k, a)"
  shows "k < length fa \<and> a = fa ! k \<and> k \<notin> used \<and> d = distance (line_idx a) rl \<and> d < 15 \<and>
         (\<forall>k'. eligible fa used rl k' \<longrightarrow> d \<le> distance (line_idx (fa ! k')) rl)"
proof -
  from assms have s: "best_scan used rl None (zip [0 ..< length fa] fa) = Some (d, k, a)"
    by (simp add: best_area_for_def)
  from best_scan_Some [OF s] have "(k, a) \<in> set (zip [0 ..< length fa] fa) \<and> k \<notin> used \<and>
      d = distance (line_idx a) rl \<and> d < 15"
    by blast
  then have 1: "k < length fa \<and> a = fa ! k \<and> k \<notin> used \<and>
      d = distance (line_idx a) rl \<and> d < 15"
    using in_enumerate [of k a fa] by blast
  have "\<forall>k'. eligible fa used rl k' \<longrightarrow> d \<le> distance (line_idx (fa ! k')) rl"
  proof (intro allI impI)
    fix k' assume "eligible fa used rl k'"
    then have "(k', fa ! k') \<in> set (zip [0 ..< length fa] fa) \<and> k' \<notin> used \<and>
        distance (line_idx (fa ! k')) rl < 15"
      by (simp add: eligible_def in_enumerate)
    with best_scan_le [OF s] show "d \<le> distance (line_idx (fa ! k')) rl" by fastforce
  qed
  with 1 show ?thesis by blast
qed

lemma best_area_for_None:
  "best_area_for fa used rl = None \<longleftrightarrow> (\<forall>k'. \<not> eligible fa used rl k')"
proof
  assume n: "best_area_for fa used rl = None"
  show "\<forall>k'. \<not> eligible fa used rl k'"
  proof (intro allI notI)
    fix k' assume "eligible fa used rl k'"
    then have "(k', fa ! k') \<in> set (zip [0 ..< length fa] fa) \<and> k' \<notin> used \<and>
        distance (line_idx (fa ! k')) rl < 15"
      by (simp add: eligible_def in_enumerate)
    with best_scan_le [OF n [unfolded best_area_for_def]] show False by fastforce
  qed
next
  assume a: "\<forall>k'. \<not> eligible fa used rl k'"
  show "best_area_for fa used rl = None"
  proof (cases "best_area_for fa used rl")
    case None
    then show ?thesis .
  next
    case (Some t)
    obtain d k b where "t = (d, k, b)" by (cases t)
    with Some best_area_for_Some [of fa used rl d k b] have "eligible fa used rl k"
      by (auto simp: eligible_def)
    with a show ?thesis by simp
  qed
qed

lemma third_pass_room:
  "r \<in> set (third_pass lines p fa used ids) \<Longrightarrow>
   \<exists>rid rl k. (rid, rl) \<in> set ids \<and> k < length fa \<and> r = generic_room lines p rid rl (fa ! k)"
proof (induction ids arbitrary: used)
  case Nil
  then show ?case by simp
next
  case (Cons x ids)
  obtain rid rl where x: "x = (rid, rl)" by (cases x)
  show ?case
  proof (cases "best_area_for fa used rl")
    case None
    with Cons.prems x have "r \<in> set (third_pass lines p fa used ids)" by simp
    from Cons.IH [OF this] show ?thesis by auto
  next
    case (Some t)
    obtain d k b where t: "t = (d, k, b)" by (cases t)
    from Some t best_area_for_Some [of fa used rl d k b] have kb: "k < length fa" "b = fa ! k" by simp_all
    from Cons.prems x Some t have "r = generic_room lines p rid rl b \<or>
        r \<in> set (third_pass lines p fa (insert k used) ids)" by simp
    then show ?thesis
    proof
      assume "r = generic_room lines p rid rl b"
      with kb x show ?thesis by auto
    next
      assume "r \<in> set (third_pass lines p fa (insert k used) ids)"
      from Cons.IH [OF this] show ?thesis by auto
    qed
  qed
qed

subsection \<open>Rounding and the totals by category\<close>













subsection \<open>The fields of an emitted room\<close>



lemma hr_room_fields:
  "room_number (hr_room n nm p a b) = n" "area_m2 (hr_room n nm p a b) = a"
  by (simp_all add: hr_room_def Let_def split: prod.splits)

lemma lq_room_fields:
  "room_number (lq_room n nm p a st) = n" "area_m2 (lq_room n nm p a st) = a"
  "factor (lq_room n nm p a st) = 1" "counted_m2 (lq_room n nm p a st) = a"
  "factor_source (lq_room n nm p a st) = None"
  by (simp_all add: lq_room_def)

lemma om_room_fields:
  "room_number (om_room n nm p a) = n" "area_m2 (om_room n nm p a) = a"
  "factor (om_room n nm p a) = 1" "counted_m2 (om_room n nm p a) = a"
  "factor_source (om_room n nm p a) = None"
  by (simp_all add: om_room_def)

lemma generic_room_fields:
  "room_number (generic_room lines p rid rl b) = rid" "area_m2 (generic_room lines p rid rl b) = area b"
  "source_text (generic_room lines p rid rl b) = source_line b"
  by (simp_all add: generic_room_def Let_def)

lemma haardtring_rooms:
  assumes "extract_haardtring lines p = Inr rs" and "r \<in> set rs"
  shows "\<exists>i rm a b. i < length lines \<and> first_match hr_room_patterns (line_at lines i) = Some rm \<and>
           hr_lookahead lines (window lines i) = Inr (Some a, b) \<and> a \<noteq> 0 \<and>
           r = hr_room (group1 rm) (hr_room_name lines i) p a b"
proof -
  from collect_mem [OF assms [unfolded extract_haardtring_def]]
  obtain i xs where "i < length lines" "haardtring_at lines p i = Inr xs" "r \<in> set xs" by auto
  with haardtring_at_room [of lines p i xs r] show ?thesis by blast
qed

lemma leiq_rooms:
  assumes "extract_leiq lines p = Inr rs" and "r \<in> set rs"
  shows "\<exists>i rm st a. i < length lines \<and> re_match False lq_room_pattern (line_at lines i) = Some rm \<and>
           lq_lookahead lines \<lparr>lq_area = None, lq_perim = None, lq_hgt = None, lq_pattern_used = None\<rparr>
             (window lines i) = Inr st \<and> lq_area st = Some a \<and> a \<noteq> 0 \<and>
           r = lq_room (group1 rm) (lq_room_name lines i) p a st"
proof -
  from collect_mem [OF assms [unfolded extract_leiq_def]]
  obtain i xs where "i < length lines" "leiq_at lines p i = Inr xs" "r \<in> set xs" by auto
  with leiq_at_room [of lines p i xs r] show ?thesis by blast
qed

lemma omniturm_rooms:
  assumes "extract_omniturm lines p = Inr rs" and "r \<in> set rs"
  shows "\<exists>i name a. i < length lines \<and> re_match False om_room_pattern (line_at lines i) \<noteq> None \<and>
      om_lookahead lines None (window lines i) = Inr (name, Some a) \<and> a \<noteq> 0 \<and>
      r = om_room (line_at lines i) name p a"
  using om_loop_room [OF assms [unfolded extract_omniturm_def]] by auto

lemma generic_rooms:
  assumes "r \<in> set (extract_generic lines p)"
  shows "\<exists>a \<in> set (find_areas lines). area_m2 r = area a \<and> source_text r = source_line a"
proof -
  from third_pass_room [OF assms [unfolded extract_generic_def]]
  obtain rid rl k where "k < length (find_areas lines)"
    "r = generic_room lines p rid rl (find_areas lines ! k)" by blast
  then show ?thesis by (auto simp: generic_room_fields)
qed







subsection \<open>Distances and the order of the identifiers\<close>

lemma nat_half_less: "(of_nat n :: rat) - 1 / 2 < of_nat m \<longleftrightarrow> n \<le> m"
proof
  assume "(of_nat n :: rat) - 1 / 2 < of_nat m"
  then have "(of_nat n :: rat) < of_nat (Suc m)" by simp
  then have "n < Suc m" by (simp only: of_nat_less_iff)
  then show "n \<le> m" by simp
next
  assume "n \<le> m"
  then have "(of_nat n :: rat) \<le> of_nat m" by simp
  then show "(of_nat n :: rat) - 1 / 2 < of_nat m" by linarith
qed

lemma nat_less_half: "(of_nat n :: rat) < of_nat m - 1 / 2 \<longleftrightarrow> n < m"
proof
  assume "(of_nat n :: rat) < of_nat m - 1 / 2"
  then have "(of_nat n :: rat) < of_nat m" by linarith
  then show "n < m" by (simp only: of_nat_less_iff)
next
  assume "n < m"
  then have "Suc n \<le> m" by simp
  then have "(of_nat (Suc n) :: rat) \<le> of_nat m" by (simp only: of_nat_le_iff)
  then show "(of_nat n :: rat) < of_nat m - 1 / 2" by simp
qed

lemma distance_gap:
  "distance l rl = of_nat (line_gap l rl) - (if l > rl then 1 / 2 else 0)"
  by (simp add: distance_def line_gap_def of_nat_diff)

lemma distance_lt_15:
  "distance l rl < 15 \<longleftrightarrow> (rl < l \<and> l \<le> rl + 15) \<or> (l \<le> rl \<and> rl < l + 15)"
proof (cases "l > rl")
  case True
  have "distance l rl < 15 \<longleftrightarrow> (of_nat (line_gap l rl) :: rat) - 1 / 2 < of_nat 15"
    using True by (simp add: distance_gap)
  also have "\<dots> \<longleftrightarrow> line_gap l rl \<le> 15" by (rule nat_half_less)
  finally show ?thesis using True by (auto simp: line_gap_def)
next
  case False
  have "distance l rl < 15 \<longleftrightarrow> (of_nat (line_gap l rl) :: rat) < of_nat 15"
    using False by (simp add: distance_gap)
  also have "\<dots> \<longleftrightarrow> line_gap l rl < 15" by (simp only: of_nat_less_iff)
  finally show ?thesis using False by (auto simp: line_gap_def)
qed

lemma distance_less:
  "distance l rl < distance l' rl \<longleftrightarrow>
     line_gap l rl < line_gap l' rl \<or> (line_gap l rl = line_gap l' rl \<and> rl < l \<and> l' < rl)"
proof -
  consider "l > rl" "l' > rl" | "l > rl" "l' \<le> rl" | "l \<le> rl" "l' > rl" | "l \<le> rl" "l' \<le> rl"
    by linarith
  then show ?thesis
  proof cases
    case 1
    then show ?thesis by (simp add: distance_gap)
  next
    case 2
    then have "distance l rl < distance l' rl \<longleftrightarrow> line_gap l rl \<le> line_gap l' rl"
      by (simp add: distance_gap nat_half_less)
    with 2 show ?thesis by (auto simp: line_gap_def)
  next
    case 3
    then have "distance l rl < distance l' rl \<longleftrightarrow> line_gap l rl < line_gap l' rl"
      by (simp add: distance_gap nat_less_half)
    with 3 show ?thesis by auto
  next
    case 4
    then show ?thesis by (simp add: distance_gap)
  qed
qed

lemma find_room_ids_order:
  "sorted_wrt (<) (map snd acc @ is) \<Longrightarrow> distinct (map fst acc) \<Longrightarrow>
   sorted_wrt (<) (map snd (find_room_ids lines acc is)) \<and>
   distinct (map fst (find_room_ids lines acc is))"
proof (induction "is" arbitrary: acc)
  case Nil
  then show ?case by simp
next
  case (Cons i "is")
  from Cons.prems(1) have s1: "sorted_wrt (<) (map snd acc @ is)"
    by (auto simp: sorted_wrt_append)
  show ?case
  proof (cases "first_match FLEXIBLE_ROOM_PATTERNS (line_at lines i)")
    case None
    with Cons.IH [OF s1 Cons.prems(2)] show ?thesis by simp
  next
    case (Some m)
    show ?thesis
    proof (cases "group1 m \<in> fst ` set acc")
      case True
      with Some Cons.IH [OF s1 Cons.prems(2)] show ?thesis by simp
    next
      case False
      have a: "sorted_wrt (<) (map snd (acc @ [(group1 m, i)]) @ is)"
        using Cons.prems(1) by simp
      have b: "distinct (map fst (acc @ [(group1 m, i)]))"
        using Cons.prems(2) False by simp
      from Some False Cons.IH [OF a b] show ?thesis by simp
    qed
  qed
qed

lemma third_pass_step:
  "third_pass lines p fa used ((rid, rl) # ids) =
     (case best_area_for fa used rl of
        None \<Rightarrow> third_pass lines p fa used ids
      | Some (d', k', a') \<Rightarrow>
          generic_room lines p rid rl (fa ! k') # third_pass lines p fa (insert k' used) ids)"
proof (cases "best_area_for fa used rl")
  case None
  then show ?thesis by simp
next
  case (Some t)
  obtain d k b where t: "t = (d, k, b)" by (cases t)
  from Some t best_area_for_Some [of fa used rl d k b] have "b = fa ! k" by simp
  with Some t show ?thesis by simp
qed

section \<open>Worked pages\<close>

lemma schlafen_haardtring: "extract_haardtring schlafen_page 0 = Inr [schlafen_room]"
  by code_simp


lemma balkon_leiq: "extract_leiq leiq_balkon_page 0 = Inr [leiq_balkon_room]"
  by code_simp

lemma schacht_omniturm: "extract_omniturm schacht_page 0 = Inr [schacht_room]"
  by code_simp

lemma greedy_generic: "extract_generic greedy_page 0 = [nf_room]"
  by code_simp

lemma far_generic: "extract_generic far_page 0 = [nf_room]"
  by code_simp

lemma fallback_areas: "extract_room_areas fallback_doc (Some Leiq) None = Inr fallback_result"
  by code_simp

lemma zero_haardtring: "extract_haardtring [''R1A'', ''Bad'', ''F: 0,00'' @ sqm] 0 = Inr []"
  by code_simp

lemma zero_leiq: "extract_leiq [''B.00.2.002'', ''Flur'', ''NRF: 0,00 m2''] 0 = Inr []"
  by code_simp

lemma zero_omniturm: "extract_omniturm [''03_b6.12'', ''Flur'', ''NGF: 0 m2''] 0 = Inr []"
  by code_simp

lemma small_generic: "extract_generic [''A.001'', ''NF: 0,4 m2''] 0 = []"
  by code_simp

lemma zero_area_pages:
  "extract_haardtring [''R1A'', ''Bad'', ''F: 0,00'' @ sqm] 0 = Inr [] \<and>
   extract_leiq [''B.00.2.002'', ''Flur'', ''NRF: 0,00 m2''] 0 = Inr [] \<and>
   extract_omniturm [''03_b6.12'', ''Flur'', ''NGF: 0 m2''] 0 = Inr [] \<and>
   extract_generic [''A.001'', ''NF: 0,4 m2''] 0 = []"
  using zero_haardtring zero_leiq zero_omniturm small_generic by blast

lemma schlafen_lines: "split_lines (page_text schlafen_page) = schlafen_page"
  by code_simp

lemma schlafen_not_literal: "\<not> contains ''F: 12.34'' (page_text schlafen_page)"
  by code_simp

lemma bad_number_haardtring:
  "extract_haardtring [''R1A'', ''Bad'', ''F: 12,34'' @ sqm, ''R1B'', ''WC'', ''F: 12,34,56'' @ sqm] 0
     = Inl ValueError"
  by code_simp

lemma bad_number_leiq: "extract_leiq [''B.00.2.002'', ''Flur'', ''NRF: 12,34,56 m2''] 0 = Inl ValueError"
  by code_simp

lemma bad_number_omniturm: "extract_omniturm [''03_b6.12'', ''Flur'', ''NGF: 1.2.3 m2''] 0 = Inl ValueError"
  by code_simp

section \<open>Traceability of the source excerpt\<close>

text \<open>
  C1. The claim asks that the \<open>source_text\<close> of every emitted room be a literal substring
  of the page text. On the page \<open>R2.E5.3.5 / Schlafen / F: 12,34 m2\<close> (the unit printed
  with the superscript two) the Haardtring extractor emits one room whose \<open>source_text\<close>
  is \<open>F: 12.34\<close>, rebuilt from the parsed number; the page has a comma there, so the
  excerpt is not a substring of the page text.
\<close>

theorem haardtring_source_text_rebuilt:
  "extract_haardtring (split_lines (page_text schlafen_page)) 0 = Inr [schlafen_room] \<and>
   source_text schlafen_room = ''F: 12.34'' \<and>
   \<not> contains (source_text schlafen_room) (page_text schlafen_page)"
  using schlafen_haardtring schlafen_not_literal
  by (simp add: schlafen_lines schlafen_room_def)

section \<open>The counting factor\<close>




section \<open>The fallback cascade of a page\<close>

text \<open>
  C3. The claim asks that no generic-extraction rooms be added to a page once a style
  fallback has found rooms. With the style \<open>leiq\<close> requested for the page
  \<open>R2.E5.3.5 / Schlafen / F: 12,34 m2\<close>, the Leiq extractor finds nothing, the
  Haardtring fallback finds the room, and the generic extractor is run all the same: the
  room is in the result twice, with both warnings, and the total counts it twice.
\<close>

theorem generic_runs_after_style_fallback:
  "extract_room_areas fallback_doc (Some Leiq) None = Inr fallback_result \<and>
   map extraction_pattern (rooms fallback_result) = [''F:'', ''generic''] \<and>
   map room_number (rooms fallback_result) = [''R2.E5.3.5'', ''R2.E5.3.5''] \<and>
   warnings fallback_result = [''Page 0: Used haardtring pattern as fallback'',
                               ''Page 0: Used generic flexible extraction''] \<and>
   total_area_m2 fallback_result = 2468 / 100"
  using fallback_areas by (simp add: fallback_result_def schlafen_room_def)

section \<open>A number that does not parse\<close>

text \<open>
  C4. The claim asks that a numeric capture that does not parse never make an extraction
  call raise. In each of the three style extractors it does: the token \<open>12,34,56\<close> (or
  \<open>1.2.3\<close>) raises \<open>ValueError\<close> out of the call, and the room \<open>R1A\<close> found before it on
  the same page is lost with it.
\<close>

theorem style_extractors_raise_on_bad_number:
  "extract_haardtring [''R1A'', ''Bad'', ''F: 12,34'' @ sqm, ''R1B'', ''WC'', ''F: 12,34,56'' @ sqm] 0
     = Inl ValueError \<and>
   extract_leiq [''B.00.2.002'', ''Flur'', ''NRF: 12,34,56 m2''] 0 = Inl ValueError \<and>
   extract_omniturm [''03_b6.12'', ''Flur'', ''NGF: 1.2.3 m2''] 0 = Inl ValueError"
  using bad_number_haardtring bad_number_leiq bad_number_omniturm by blast

section \<open>The decision tree of the style detector\<close>

text \<open>
  C5. \<open>detect_blueprint_style\<close> is the ordered decision tree of the specification: \<open>F:\<close>
  together with a Haardtring room identifier or metadata code gives haardtring; otherwise
  \<open>NRF:\<close> or \<open>F=\<close> together with the \<open>B.\<close> grammar gives leiq; otherwise \<open>NGF:\<close> gives
  omniturm whatever room identifiers occur; otherwise a lone \<open>NRF:\<close> or \<open>F=\<close> gives leiq,
  and after that a lone \<open>F:\<close> gives haardtring; the result is unknown exactly when none
  of the four label probes fires, hence whenever no probe fires.
\<close>

theorem detect_blueprint_style_tree:
  "detect_blueprint_style text = spec_detect text \<and>
   (detect_blueprint_style text = Unknown \<longleftrightarrow>
      \<not> (has_f_colon text \<or> has_f_equals text \<or> has_nrf text \<or> has_ngf text))"
  by (simp add: detect_blueprint_style_def spec_detect_def)

theorem detect_blueprint_style_tree_witness:
  "spec_detect (''R1A Bad F: 3,5'') = Haardtring \<and>
   spec_detect (''NGF: 3 B.1.2.3 F=3a'') = Leiq \<and>
   spec_detect (''ngf: 3 B.1.2.3 F=a'') = Omniturm \<and>
   spec_detect (''F: 12,5'') = Haardtring \<and>
   detect_blueprint_style ''R1A B.1.2.3 12_a3.4'' = Unknown"
proof -
  have "detect_blueprint_style (''R1A Bad F: 3,5'') = Haardtring" by code_simp
  moreover have "detect_blueprint_style (''NGF: 3 B.1.2.3 F=3a'') = Leiq" by code_simp
  moreover have "detect_blueprint_style (''ngf: 3 B.1.2.3 F=a'') = Omniturm" by code_simp
  moreover have "detect_blueprint_style (''F: 12,5'') = Haardtring" by code_simp
  moreover have "\<not> (has_f_colon ''R1A B.1.2.3 12_a3.4'' \<or> has_f_equals ''R1A B.1.2.3 12_a3.4'' \<or>
                     has_nrf ''R1A B.1.2.3 12_a3.4'' \<or> has_ngf ''R1A B.1.2.3 12_a3.4'')"
    by code_simp
  ultimately show ?thesis
    using detect_blueprint_style_tree [of "''R1A Bad F: 3,5''"]
      detect_blueprint_style_tree [of "''NGF: 3 B.1.2.3 F=3a''"]
      detect_blueprint_style_tree [of "''ngf: 3 B.1.2.3 F=a''"]
      detect_blueprint_style_tree [of "''F: 12,5''"]
      detect_blueprint_style_tree [of "''R1A B.1.2.3 12_a3.4''"]
    by metis
qed

section \<open>The greedy assignment of the generic extractor\<close>

text \<open>
  C6, as amended. The third pass walks the identifiers in the order of their first lines
  (\<open>find_room_ids\<close> lists them by increasing line, each once). For the identifier on line
  \<open>rl\<close> it takes, among the areas that are eligible, one of least distance, and none when
  no area is eligible; the index taken joins \<open>used\<close> for every later identifier, and an
  index in \<open>used\<close> is never eligible again. The distance is the number of lines between
  the two, less one half when the area comes after the identifier: of two areas the
  nearer in lines wins, and of two equally far the one after the identifier. An area is
  eligible when it is unused and this distance is under 15, that is when it stands at
  most 15 lines after the identifier or at most 14 lines before it.
\<close>

theorem generic_greedy_assignment:
  "(best_area_for fa used rl = Some (d, k, a) \<longrightarrow>
      eligible fa used rl k \<and> a = fa ! k \<and> d = distance (line_idx (fa ! k)) rl \<and>
      (\<forall>k'. eligible fa used rl k' \<longrightarrow> d \<le> distance (line_idx (fa ! k')) rl)) \<and>
   (best_area_for fa used rl = None \<longleftrightarrow> (\<forall>k'. \<not> eligible fa used rl k')) \<and>
   (eligible fa used rl k \<longleftrightarrow>
      k < length fa \<and> k \<notin> used \<and>
      (rl < line_idx (fa ! k) \<and> line_idx (fa ! k) \<le> rl + 15 \<or>
       line_idx (fa ! k) \<le> rl \<and> rl < line_idx (fa ! k) + 15)) \<and>
   (distance l rl < distance l' rl \<longleftrightarrow>
      line_gap l rl < line_gap l' rl \<or> line_gap l rl = line_gap l' rl \<and> rl < l \<and> l' < rl) \<and>
   third_pass lines p fa used ((rid, rl) # ids) =
     (case best_area_for fa used rl of
        None \<Rightarrow> third_pass lines p fa used ids
      | Some (d', k', a') \<Rightarrow>
          generic_room lines p rid rl (fa ! k') # third_pass lines p fa (insert k' used) ids) \<and>
   sorted_wrt (<) (map snd (find_room_ids lines [] [0 ..< length lines])) \<and>
   distinct (map fst (find_room_ids lines [] [0 ..< length lines]))"
proof -
  have 1: "best_area_for fa used rl = Some (d, k, a) \<longrightarrow>
      eligible fa used rl k \<and> a = fa ! k \<and> d = distance (line_idx (fa ! k)) rl \<and>
      (\<forall>k'. eligible fa used rl k' \<longrightarrow> d \<le> distance (line_idx (fa ! k')) rl)"
  proof
    assume "best_area_for fa used rl = Some (d, k, a)"
    from best_area_for_Some [OF this] show "eligible fa used rl k \<and> a = fa ! k \<and>
      d = distance (line_idx (fa ! k)) rl \<and>
      (\<forall>k'. eligible fa used rl k' \<longrightarrow> d \<le> distance (line_idx (fa ! k')) rl)"
      by (auto simp: eligible_def)
  qed
  have 2: "best_area_for fa used rl = None \<longleftrightarrow> (\<forall>k'. \<not> eligible fa used rl k')"
    by (rule best_area_for_None)
  have 3: "eligible fa used rl k \<longleftrightarrow>
      k < length fa \<and> k \<notin> used \<and>
      (rl < line_idx (fa ! k) \<and> line_idx (fa ! k) \<le> rl + 15 \<or>
       line_idx (fa ! k) \<le> rl \<and> rl < line_idx (fa ! k) + 15)"
    by (simp add: eligible_def distance_lt_15)
  have 4: "distance l rl < distance l' rl \<longleftrightarrow>
      line_gap l rl < line_gap l' rl \<or> line_gap l rl = line_gap l' rl \<and> rl < l \<and> l' < rl"
    by (rule distance_less)
  note 5 = third_pass_step [of lines p fa used rid rl ids]
  have "sorted_wrt (<) (map snd ([] :: (string \<times> nat) list) @ [0 ..< length lines])"
    by (simp add: sorted_wrt_upt)
  from find_room_ids_order [OF this] have 6:
    "sorted_wrt (<) (map snd (find_room_ids lines [] [0 ..< length lines])) \<and>
     distinct (map fst (find_room_ids lines [] [0 ..< length lines]))" by simp
  show ?thesis
    by (rule conjI [OF 1 conjI [OF 2 conjI [OF 3 conjI [OF 4 conjI [OF 5 6]]]]])
qed

theorem generic_greedy_assignment_witness:
  "eligible [\<lparr>line_idx = 2, area = 7, source_line = ''NF:7m''\<rparr>] {} 0 0 \<and>
   (\<forall>k'. \<not> eligible [\<lparr>line_idx = 2, area = 7, source_line = ''NF:7m''\<rparr>] {0} 3 k') \<and>
   distance 2 3 < distance 2 0 \<and>
   extract_generic greedy_page 0 = [nf_room]"
proof -
  let ?fa = "[\<lparr>line_idx = 2, area = 7, source_line = ''NF:7m''\<rparr>]"
  have a: "best_area_for ?fa {} 0 = Some (3 / 2, 0, \<lparr>line_idx = 2, area = 7, source_line = ''NF:7m''\<rparr>)"
    by (simp add: best_area_for_def distance_def)
  have b: "best_area_for ?fa {0} 3 = None"
    by (simp add: best_area_for_def)
  note g1 = generic_greedy_assignment [of ?fa "{}" 0 "3 / 2" 0 "\<lparr>line_idx = 2, area = 7, source_line = ''NF:7m''\<rparr>",
      THEN conjunct1, THEN mp, OF a, THEN conjunct1]
  note g2 = generic_greedy_assignment [of ?fa "{0}" 3, THEN conjunct2, THEN conjunct1, THEN iffD1, OF b]
  have g4: "distance 2 3 < distance 2 0"
    by (simp add: distance_def)
  from g1 g2 g4 greedy_generic show ?thesis by blast
qed

text \<open>
  C6 as stated says that only a distance under 15 lines is eligible. On a page with the
  identifier on line 0 and the only area on line 15, the two are 15 lines apart and the
  area is assigned all the same.
\<close>

theorem eligible_fifteen_lines_after_counterexample:
  "extract_generic far_page 0 = [nf_room] \<and>
   find_areas far_page = [\<lparr>line_idx = 15, area = 7, source_line = ''NF:7m''\<rparr>] \<and>
   find_room_ids far_page [] [0 ..< length far_page] = [(''A.001'', 0)] \<and>
   \<not> line_gap 15 0 < 15"
proof -
  have "find_areas far_page = [\<lparr>line_idx = 15, area = 7, source_line = ''NF:7m''\<rparr>]" by code_simp
  moreover have "find_room_ids far_page [] [0 ..< length far_page] = [(''A.001'', 0)]" by code_simp
  moreover have "\<not> line_gap 15 0 < 15" by (simp add: line_gap_def)
  ultimately show ?thesis using far_generic by blast
qed

section \<open>The lookahead window\<close>




section \<open>Totals\<close>



section \<open>No room without an area\<close>

text \<open>
  C10. Every room emitted by any of the four page extractors has an area other than
  zero, and a room of the generic extractor has an area between 0.5 and 10000
  inclusive. An anchor whose lookahead returns the area zero gives no record, as when it
  returns none: the pages with \<open>F: 0,00 m2\<close>, \<open>NRF: 0,00 m2\<close> and \<open>NGF: 0 m2\<close> give no
  room, and the generic extractor drops the area 0.4.
\<close>

theorem emitted_area_nonzero:
  "(extract_haardtring lines p = Inr rs \<longrightarrow> (\<forall>r \<in> set rs. area_m2 r \<noteq> 0)) \<and>
   (extract_leiq lines p = Inr rs \<longrightarrow> (\<forall>r \<in> set rs. area_m2 r \<noteq> 0)) \<and>
   (extract_omniturm lines p = Inr rs \<longrightarrow> (\<forall>r \<in> set rs. area_m2 r \<noteq> 0)) \<and>
   (\<forall>r \<in> set (extract_generic lines p). area_m2 r \<noteq> 0 \<and> 1 / 2 \<le> area_m2 r \<and> area_m2 r \<le> 10000) \<and>
   (hr_lookahead lines (window lines i) = Inr (Some 0, b) \<longrightarrow> haardtring_at lines p i = Inr []) \<and>
   extract_haardtring [''R1A'', ''Bad'', ''F: 0,00'' @ sqm] 0 = Inr [] \<and>
   extract_leiq [''B.00.2.002'', ''Flur'', ''NRF: 0,00 m2''] 0 = Inr [] \<and>
   extract_omniturm [''03_b6.12'', ''Flur'', ''NGF: 0 m2''] 0 = Inr [] \<and>
   extract_generic [''A.001'', ''NF: 0,4 m2''] 0 = []"
proof -
  have 1: "extract_haardtring lines p = Inr rs \<longrightarrow> (\<forall>r \<in> set rs. area_m2 r \<noteq> 0)"
  proof (intro impI ballI)
    fix r assume "extract_haardtring lines p = Inr rs" and "r \<in> set rs"
    from haardtring_rooms [OF this] obtain n nm a b where "a \<noteq> 0" "r = hr_room n nm p a b" by blast
    then show "area_m2 r \<noteq> 0" by (simp add: hr_room_fields)
  qed
  have 2: "extract_leiq lines p = Inr rs \<longrightarrow> (\<forall>r \<in> set rs. area_m2 r \<noteq> 0)"
  proof (intro impI ballI)
    fix r assume "extract_leiq lines p = Inr rs" and "r \<in> set rs"
    from leiq_rooms [OF this] obtain n nm a st where "a \<noteq> 0" "r = lq_room n nm p a st" by blast
    then show "area_m2 r \<noteq> 0" by (simp add: lq_room_fields)
  qed
  have 3: "extract_omniturm lines p = Inr rs \<longrightarrow> (\<forall>r \<in> set rs. area_m2 r \<noteq> 0)"
  proof (intro impI ballI)
    fix r assume "extract_omniturm lines p = Inr rs" and "r \<in> set rs"
    from omniturm_rooms [OF this] obtain n nm a where "a \<noteq> 0" "r = om_room n nm p a" by blast
    then show "area_m2 r \<noteq> 0" by (simp add: om_room_fields)
  qed
  have 4: "\<forall>r \<in> set (extract_generic lines p). area_m2 r \<noteq> 0 \<and> 1 / 2 \<le> area_m2 r \<and> area_m2 r \<le> 10000"
  proof
    fix r assume "r \<in> set (extract_generic lines p)"
    from generic_rooms [OF this] obtain a where "a \<in> set (find_areas lines)" "area_m2 r = area a"
      by blast
    with find_areas_facts [of a lines] have "1 / 2 \<le> area_m2 r \<and> area_m2 r \<le> 10000" by simp
    then show "area_m2 r \<noteq> 0 \<and> 1 / 2 \<le> area_m2 r \<and> area_m2 r \<le> 10000" by auto
  qed
  have 5: "hr_lookahead lines (window lines i) = Inr (Some 0, b) \<longrightarrow> haardtring_at lines p i = Inr []"
    by (simp add: haardtring_at_def bind_res_def truthy_def split: option.splits)
  show ?thesis
    by (rule conjI [OF 1 conjI [OF 2 conjI [OF 3 conjI [OF 4 conjI [OF 5 zero_area_pages]]]]])
qed

theorem emitted_area_nonzero_witness:
  "area_m2 schlafen_room \<noteq> 0 \<and> area_m2 leiq_balkon_room \<noteq> 0 \<and> area_m2 schacht_room \<noteq> 0 \<and>
   1 / 2 \<le> area_m2 nf_room \<and> area_m2 nf_room \<le> 10000"
proof -
  have m: "schlafen_room \<in> set [schlafen_room]" "leiq_balkon_room \<in> set [leiq_balkon_room]"
    "schacht_room \<in> set [schacht_room]" "nf_room \<in> set (extract_generic greedy_page 0)"
    by (simp_all add: greedy_generic)
  note e1 = emitted_area_nonzero [of schlafen_page 0 "[schlafen_room]", THEN conjunct1, THEN mp,
      OF schlafen_haardtring, THEN bspec, OF m(1)]
  note e2 = emitted_area_nonzero [of leiq_balkon_page 0 "[leiq_balkon_room]", THEN conjunct2,
      THEN conjunct1, THEN mp, OF balkon_leiq, THEN bspec, OF m(2)]
  note e3 = emitted_area_nonzero [of schacht_page 0 "[schacht_room]", THEN conjunct2, THEN conjunct2,
      THEN conjunct1, THEN mp, OF schacht_omniturm, THEN bspec, OF m(3)]
  note e4 = emitted_area_nonzero [of greedy_page 0, THEN conjunct2, THEN conjunct2, THEN conjunct2,
      THEN conjunct1, THEN bspec, OF m(4)]
  from e1 e2 e3 e4 show ?thesis by blast
qed

end
